theory Spec2Isabelle
  imports Complex_Main
begin

section \<open>Numbers and the built-in functions of the source\<close>

text \<open>
  The calculator works on JavaScript numbers, that is IEEE doubles. In the calculators below
  a number is modelled by the real it denotes and every operation by the exact operation on
  reals: the definitions are the formulas of the source, evaluated without rounding error.
  The code departs from this model in four ways.

  \<^item> Every operation on doubles rounds its result, a relative error of about 1e-16. An
    equation between values that the code does not round holds of the code up to the
    accumulated error of the operations involved.

  \<^item> The idiom \<open>Math.round(x * 1000000) / 1000000\<close> is applied by the code to the double
    product. When the exact product lies on a tie \<open>k + 1 / 2\<close>, or within the rounding error of
    one, the code may return the other neighbouring multiple of 0.000001 than \<open>Math_round\<close>
    does here;
    the same holds for the 2-decimal idiom. The predicate \<open>nearest_millionth\<close> below says
    "rounded to 6 decimals" without fixing the direction at such a point.

  \<^item> In the annuity formula of the uniform-rate calculator the denominator
    \<open>(1 + tem) ^ cuotas - 1\<close> cancels. For a positive monthly rate below about 1e-16 the double
    \<open>1 + tem\<close> is 1, the denominator is 0 and the code returns Infinity; for small positive
    rates above that the relative error of the code's coefficient is large (it is below
    1e-12 once the nominal rate is at least 1 percent). The special case of the source
    covers only the rate 0 itself. The model does not show this; the value of the annuity
    formula is asserted below only for the rate 0 and for nominal rates of at least 1 percent.

  \<^item> NaN and the two infinities have no counterpart among the reals. The validator and the
    guard of the day-count \<open>calcularTEA\<close> only compare numbers, and they are modelled a second
    time on a type of JavaScript numbers that has those values (\<open>validarDatosEntradaJS\<close>,
    \<open>calcularTEA_condicion\<close>).

  A JavaScript string is a sequence of 16-bit code units; every unit of the messages of the
  source is below 256 and is written as one \<open>char\<close>.
\<close>

definition Number_isInteger :: "real \<Rightarrow> bool" where
  "Number_isInteger x = (of_int \<lfloor>x\<rfloor> = x)"

definition Math_round :: "real \<Rightarrow> real" where
  \<comment> \<open>\<open>Math.round\<close>: the nearest integer, a tie going towards plus infinity.\<close>
  "Math_round x = of_int \<lfloor>x + 1 / 2\<rfloor>"

definition Math_pow :: "real \<Rightarrow> real \<Rightarrow> real" where
  \<comment> \<open>\<open>Math.pow\<close>: repeated multiplication for an integral exponent (any base), the real
      power otherwise. JavaScript gives NaN for a negative base with a non-integral exponent
      and Infinity for base 0 with a negative exponent; neither arises when the resultant rate
      is not negative.\<close>
  "Math_pow b e = (if Number_isInteger e then b powi \<lfloor>e\<rfloor> else b powr e)"

definition IVA :: real where
  \<comment> \<open>\<open>const IVA = 0.21\<close>\<close>
  "IVA = 21 / 100"

section \<open>Types (\<open>financial.types.ts\<close>)\<close>

text \<open>
  Several records of the source share field names; a selector written without its record
  name is the one of \<open>CalculoFinancieroInput\<close> or of \<open>ResultadoCalculos\<close>, and the
  fields of \<open>DetalleCuota\<close> are written with the record name.
\<close>

record DetalleCuota =
  numeroCuota :: real
  importe :: real
  tnaResultante :: real
  cuota :: real
  coeficiente :: real
  coeficienteConIVA :: real
  tea :: real
  cft :: real
  tasaDirecta :: real

record CalculoFinancieroInput =
  importe :: real
  cuotas :: real
  tna :: real
  arancelProcesador :: "real option"
  feeRiesgoProcesador :: "real option"
  adicionalCobrador :: "real option"
  impuestos :: "real option"
  tnaCobrador :: "real option"

record ValidationResult =
  isValid :: bool
  errorMessage :: "string option"

text \<open>
  The two revisions of \<open>ResultadoCalculos\<close>: eleven numbers, and in the day-count revision
  the list of per-instalment details on top of them.
\<close>

record ResultadoCalculos =
  coeficiente :: real
  tasaDirecta :: real
  coeficienteConIVA :: real
  tea :: real
  cft :: real
  cuota :: real
  cuotaConIVA :: real
  montoTotal :: real
  montoTotalConIVA :: real
  interesTotal :: real
  interesTotalConIVA :: real

record ResultadoCalculosDetalle = ResultadoCalculos +
  detallesPorCuota :: "DetalleCuota list"

datatype error = Error string

section \<open>Validation (the same text in every revision of \<open>financial-calculator.ts\<close>)\<close>

definition validarDatosEntrada :: "CalculoFinancieroInput \<Rightarrow> ValidationResult" where
  "validarDatosEntrada input =
     (if importe input \<le> 0
        then \<lparr>isValid = False, errorMessage = Some ''El importe debe ser mayor a cero''\<rparr>
      else if cuotas input \<le> 0 \<or> \<not> Number_isInteger (cuotas input)
        then \<lparr>isValid = False, errorMessage =
               Some (''El n'' @ [CHR 0xFA] @ ''mero de cuotas debe ser un entero mayor a cero'')\<rparr>
      else if tna input < 0
        then \<lparr>isValid = False, errorMessage = Some ''La TNA no puede ser negativa''\<rparr>
      else \<lparr>isValid = True, errorMessage = None\<rparr>)"

definition throw_Error :: "string option \<Rightarrow> error" where
  \<comment> \<open>\<open>throw new Error(m)\<close>: an undefined message gives the empty one.\<close>
  "throw_Error m = Error (case m of None \<Rightarrow> [] | Some s \<Rightarrow> s)"

definition default0 :: "real option \<Rightarrow> real" where
  \<comment> \<open>the destructuring default \<open>= 0\<close> of an optional field\<close>
  "default0 v = (case v of None \<Rightarrow> 0 | Some x \<Rightarrow> x)"

section \<open>The uniform-rate calculator without fees (lines 1-283, header "Fiserv")\<close>

definition calcularTEM :: "real \<Rightarrow> real" where
  "calcularTEM tna' = (tna' / 100) / 12"

definition calcularCoeficiente_A1 :: "real \<Rightarrow> real \<Rightarrow> real" where
  "calcularCoeficiente_A1 tem' cuotas' =
     (if tem' = 0 then 1 / cuotas'
      else let unoMasTEM = 1 + tem';
               unoMasTEMElevadoCuotas = Math_pow unoMasTEM cuotas'
           in (tem' * unoMasTEMElevadoCuotas) / (unoMasTEMElevadoCuotas - 1))"

definition calcularTasaDirecta :: "real \<Rightarrow> real \<Rightarrow> real" where
  "calcularTasaDirecta coeficiente' cuotas' = ((coeficiente' * cuotas') - 1) * 100"

definition calcularCoeficienteConIVA_A1 :: "real \<Rightarrow> real" where
  "calcularCoeficienteConIVA_A1 coeficiente' = coeficiente' * (1 + IVA)"

definition calcularTEA_A :: "real \<Rightarrow> real" where
  "calcularTEA_A tem' = (Math_pow (1 + tem') 12 - 1) * 100"

definition calcularCFT_A :: "real \<Rightarrow> real \<Rightarrow> real" where
  "calcularCFT_A coeficiente' cuotas' =
     (let coeficientePorCuotas = coeficiente' * cuotas';
          exponenteCFT = 12 / cuotas'
      in (Math_pow coeficientePorCuotas exponenteCFT - 1) * 100)"

definition calcularCuota_A1 :: "real \<Rightarrow> real \<Rightarrow> real" where
  "calcularCuota_A1 importe' coeficiente' = importe' * coeficiente'"

definition calcularMontoTotal_A1 :: "real \<Rightarrow> real \<Rightarrow> real" where
  "calcularMontoTotal_A1 cuota' numeroCuotas = cuota' * numeroCuotas"

definition calcularInteresTotal_A1 :: "real \<Rightarrow> real \<Rightarrow> real" where
  "calcularInteresTotal_A1 montoTotal' importe' = montoTotal' - importe'"

definition calcularFinanciamiento_A1 :: "CalculoFinancieroInput \<Rightarrow> error + ResultadoCalculos" where
  "calcularFinanciamiento_A1 input =
     (let validacion = validarDatosEntrada input in
      if \<not> isValid validacion then Inl (throw_Error (errorMessage validacion))
      else
        let importe' = importe input; cuotas' = cuotas input; tna' = tna input;
            tem' = calcularTEM tna';
            coeficiente' = calcularCoeficiente_A1 tem' cuotas';
            tasaDirecta' = calcularTasaDirecta coeficiente' cuotas';
            coeficienteConIVA' = calcularCoeficienteConIVA_A1 coeficiente';
            tea' = calcularTEA_A tem';
            cft' = calcularCFT_A coeficiente' cuotas';
            cuota' = calcularCuota_A1 importe' coeficiente';
            cuotaConIVA' = calcularCuota_A1 importe' coeficienteConIVA';
            montoTotal' = calcularMontoTotal_A1 cuota' cuotas';
            montoTotalConIVA' = calcularMontoTotal_A1 cuotaConIVA' cuotas';
            interesTotal' = calcularInteresTotal_A1 montoTotal' importe';
            interesTotalConIVA' = calcularInteresTotal_A1 montoTotalConIVA' importe'
        in Inr \<lparr>coeficiente = coeficiente', tasaDirecta = tasaDirecta',
                 coeficienteConIVA = coeficienteConIVA', tea = tea', cft = cft',
                 cuota = cuota', cuotaConIVA = cuotaConIVA', montoTotal = montoTotal',
                 montoTotalConIVA = montoTotalConIVA', interesTotal = interesTotal',
                 interesTotalConIVA = interesTotalConIVA'\<rparr>)"

section \<open>Operations that round (the same text in both revisions headed "Procesador")\<close>

definition calcularCoeficienteConIVA :: "real \<Rightarrow> real" where
  "calcularCoeficienteConIVA coeficiente' =
     (let coeficienteConIVA' = coeficiente' * (1 + IVA)
      in Math_round (coeficienteConIVA' * 1000000) / 1000000)"

definition calcularCuota :: "real \<Rightarrow> real \<Rightarrow> real" where
  "calcularCuota importe' coeficiente' =
     (let cuota' = importe' * coeficiente' in Math_round (cuota' * 100) / 100)"

definition calcularMontoTotal :: "real \<Rightarrow> real \<Rightarrow> real" where
  "calcularMontoTotal cuota' numeroCuotas =
     (let montoTotal' = cuota' * numeroCuotas in Math_round (montoTotal' * 100) / 100)"

definition calcularInteresTotal :: "real \<Rightarrow> real \<Rightarrow> real" where
  "calcularInteresTotal montoTotal' importe' =
     (let interesTotal' = montoTotal' - importe' in Math_round (interesTotal' * 100) / 100)"

section \<open>The uniform-rate calculator with fees and rounding (\<open>unnamed/part_001\<close>, header "Procesador")\<close>

definition calcularCoeficiente_A2 :: "real \<Rightarrow> real \<Rightarrow> real" where
  "calcularCoeficiente_A2 tem' cuotas' =
     (if tem' = 0 then Math_round ((1 / cuotas') * 1000000) / 1000000
      else let unoMasTEM = 1 + tem';
               unoMasTEMElevadoCuotas = Math_pow unoMasTEM cuotas';
               coeficiente' = (tem' * unoMasTEMElevadoCuotas) / (unoMasTEMElevadoCuotas - 1)
           in Math_round (coeficiente' * 1000000) / 1000000)"

definition tnaCobrador_resultante :: "CalculoFinancieroInput \<Rightarrow> real" where
  \<comment> \<open>\<open>const tnaCobrador = tna + arancelProcesador + feeRiesgoProcesador + adicionalCobrador
      + impuestos\<close>, each optional field read with its default 0\<close>
  "tnaCobrador_resultante input =
     tna input + default0 (arancelProcesador input) + default0 (feeRiesgoProcesador input)
       + default0 (adicionalCobrador input) + default0 (impuestos input)"

definition calcularFinanciamiento_A2 :: "CalculoFinancieroInput \<Rightarrow> error + ResultadoCalculos" where
  "calcularFinanciamiento_A2 input =
     (let validacion = validarDatosEntrada input in
      if \<not> isValid validacion then Inl (throw_Error (errorMessage validacion))
      else
        let importe' = importe input; cuotas' = cuotas input;
            tnaCobrador' = tnaCobrador_resultante input;
            tem' = calcularTEM tnaCobrador';
            coeficiente' = calcularCoeficiente_A2 tem' cuotas';
            tasaDirecta' = calcularTasaDirecta coeficiente' cuotas';
            coeficienteConIVA' = calcularCoeficienteConIVA coeficiente';
            tea' = calcularTEA_A tem';
            cft' = calcularCFT_A coeficiente' cuotas';
            cuota' = calcularCuota importe' coeficiente';
            cuotaConIVA' = calcularCuota importe' coeficienteConIVA';
            montoTotal' = calcularMontoTotal cuota' cuotas';
            montoTotalConIVA' = calcularMontoTotal cuotaConIVA' cuotas';
            interesTotal' = calcularInteresTotal montoTotal' importe';
            interesTotalConIVA' = calcularInteresTotal montoTotalConIVA' importe'
        in Inr \<lparr>coeficiente = coeficiente', tasaDirecta = tasaDirecta',
                 coeficienteConIVA = coeficienteConIVA', tea = tea', cft = cft',
                 cuota = cuota', cuotaConIVA = cuotaConIVA', montoTotal = montoTotal',
                 montoTotalConIVA = montoTotalConIVA', interesTotal = interesTotal',
                 interesTotalConIVA = interesTotalConIVA'\<rparr>)"

section \<open>The day-count calculator (lines 284-765, header "Procesador")\<close>

definition calcularCoeficienteCuota :: "real \<Rightarrow> real \<Rightarrow> real" where
  "calcularCoeficienteCuota tna' numeroCuota' =
     (let tnaDecimal = tna' / 100;
          factor28Dias = 1 + (tnaDecimal * 28 / 360)
      in if numeroCuota' = 1 then 1 / factor28Dias
         else let factor30Dias = 1 + (tnaDecimal * 30 / 360);
                  exponente = numeroCuota' - 1;
                  factor30Elevado = Math_pow factor30Dias exponente
              in 1 / (factor28Dias * factor30Elevado))"

text \<open>
  The loop \<open>for (let i = 1; i <= cuotasPlan; i++) sumaCoeficientes += calcularCoeficienteCuota(tna, i)\<close>,
  written twice in the source (in \<open>calcularCostoFinanciero\<close> and in
  \<open>calcularCoeficientePromedio\<close>): the counter and the accumulator are the arguments.
\<close>

function sumaCoeficientes_loop :: "real \<Rightarrow> real \<Rightarrow> nat \<Rightarrow> real \<Rightarrow> real" where
  "sumaCoeficientes_loop tna' cuotas' i sumaCoeficientes =
     (if real i \<le> cuotas'
      then sumaCoeficientes_loop tna' cuotas' (Suc i)
             (sumaCoeficientes + calcularCoeficienteCuota tna' (real i))
      else sumaCoeficientes)"
  by pat_completeness auto
termination
  by (relation "measure (\<lambda>(tna', cuotas', i, s). nat \<lfloor>cuotas'\<rfloor> + 1 - i)") (auto, linarith)

definition calcularCostoFinanciero :: "real \<Rightarrow> real \<Rightarrow> real \<Rightarrow> real" where
  "calcularCostoFinanciero valorNetoArancel cuotasPlan tna' =
     (let sumaCoeficientes = sumaCoeficientes_loop tna' cuotasPlan 1 0;
          factorDescuento = (1 / cuotasPlan) * sumaCoeficientes;
          costoFinanciero = valorNetoArancel * (1 - factorDescuento)
      in costoFinanciero)"

definition calcularCoeficientePromedio :: "real \<Rightarrow> real \<Rightarrow> real" where
  "calcularCoeficientePromedio tna' cuotas' =
     (let sumaCoeficientes = sumaCoeficientes_loop tna' cuotas' 1 0;
          promedioCoeficientesDescuento = sumaCoeficientes / cuotas';
          coeficiente' = 1 / promedioCoeficientesDescuento
      in Math_round (coeficiente' * 1000000) / 1000000)"

definition calcularCoeficiente_B :: "real \<Rightarrow> real \<Rightarrow> real" where
  "calcularCoeficiente_B tna' cuotas' =
     (if tna' = 0 then Math_round ((1 / cuotas') * 1000000) / 1000000
      else calcularCoeficientePromedio tna' cuotas')"

definition calcularCFT_B :: "real \<Rightarrow> real \<Rightarrow> real \<Rightarrow> real" where
  "calcularCFT_B importe' cuotas' tna' =
     (let costoFinanciero = calcularCostoFinanciero importe' cuotas' tna'
      in (costoFinanciero / importe') * 100)"

definition calcularTEA_B :: "real \<Rightarrow> real \<Rightarrow> real \<Rightarrow> real" where
  "calcularTEA_B importe' cuotas' tna' =
     (let cft' = calcularCFT_B importe' cuotas' tna';
          costoFinanciero = calcularCostoFinanciero importe' cuotas' tna';
          montoTotal' = importe' + costoFinanciero;
          diasTotales = 28 + (30 * (cuotas' - 1));
          anios = diasTotales / 360
      in if anios > 0 \<and> importe' > 0
         then let tea' = (Math_pow (montoTotal' / importe') (1 / anios) - 1) * 100 in tea'
         else cft')"

function detalles_loop ::
  "real \<Rightarrow> real \<Rightarrow> real \<Rightarrow> real \<Rightarrow> real \<Rightarrow> real \<Rightarrow> real \<Rightarrow> nat \<Rightarrow> DetalleCuota list
     \<Rightarrow> DetalleCuota list" where
  "detalles_loop importe' cuotas' tnaCobrador' cuota' tea' cft' tasaDirecta' i detalles =
     (if real i \<le> cuotas'
      then
        let coeficienteCuota = calcularCoeficienteCuota tnaCobrador' (real i);
            coeficienteCuotaConIVA = calcularCoeficienteConIVA coeficienteCuota
        in detalles_loop importe' cuotas' tnaCobrador' cuota' tea' cft' tasaDirecta' (Suc i)
             (detalles @
              [\<lparr>numeroCuota = real i, importe = importe', tnaResultante = tnaCobrador',
                cuota = cuota',
                coeficiente = Math_round (coeficienteCuota * 1000000) / 1000000,
                coeficienteConIVA = Math_round (coeficienteCuotaConIVA * 1000000) / 1000000,
                tea = tea', cft = cft', tasaDirecta = tasaDirecta'\<rparr>])
      else detalles)"
  by pat_completeness auto
termination
  by (relation "measure (\<lambda>(a, cuotas', b, c, d, e, f, i, ds). nat \<lfloor>cuotas'\<rfloor> + 1 - i)")
     (auto, linarith)

definition calcularDetallesPorCuota ::
  "real \<Rightarrow> real \<Rightarrow> real \<Rightarrow> real \<Rightarrow> real \<Rightarrow> real \<Rightarrow> real \<Rightarrow> DetalleCuota list" where
  "calcularDetallesPorCuota importe' cuotas' tnaCobrador' coeficientePromedio tea' cft' tasaDirecta' =
     (let cuota' = calcularCuota importe' coeficientePromedio
      in detalles_loop importe' cuotas' tnaCobrador' cuota' tea' cft' tasaDirecta' 1 [])"

definition calcularFinanciamiento_B ::
  "CalculoFinancieroInput \<Rightarrow> error + ResultadoCalculosDetalle" where
  "calcularFinanciamiento_B input =
     (let validacion = validarDatosEntrada input in
      if \<not> isValid validacion then Inl (throw_Error (errorMessage validacion))
      else
        let importe' = importe input; cuotas' = cuotas input;
            tnaCobrador' = tnaCobrador_resultante input;
            coeficiente' = calcularCoeficiente_B tnaCobrador' cuotas';
            tasaDirecta' = calcularTasaDirecta coeficiente' cuotas';
            coeficienteConIVA' = calcularCoeficienteConIVA coeficiente';
            tea' = calcularTEA_B importe' cuotas' tnaCobrador';
            cft' = calcularCFT_B importe' cuotas' tnaCobrador';
            cuota' = calcularCuota importe' coeficiente';
            cuotaConIVA' = calcularCuota importe' coeficienteConIVA';
            montoTotal' = calcularMontoTotal cuota' cuotas';
            montoTotalConIVA' = calcularMontoTotal cuotaConIVA' cuotas';
            interesTotal' = calcularInteresTotal montoTotal' importe';
            interesTotalConIVA' = calcularInteresTotal montoTotalConIVA' importe';
            detallesPorCuota' = calcularDetallesPorCuota importe' cuotas' tnaCobrador'
                                  coeficiente' tea' cft' tasaDirecta'
        in Inr \<lparr>coeficiente = coeficiente', tasaDirecta = tasaDirecta',
                 coeficienteConIVA = coeficienteConIVA', tea = tea', cft = cft',
                 cuota = cuota', cuotaConIVA = cuotaConIVA', montoTotal = montoTotal',
                 montoTotalConIVA = montoTotalConIVA', interesTotal = interesTotal',
                 interesTotalConIVA = interesTotalConIVA',
                 detallesPorCuota = detallesPorCuota'\<rparr>)"

declare sumaCoeficientes_loop.simps [simp del] detalles_loop.simps [simp del]

section \<open>Validation and the guard of \<open>calcularTEA\<close> on JavaScript numbers\<close>

text \<open>
  A TypeScript \<open>number\<close> may also be NaN or an infinity, and the input interface does not
  exclude them. The validator and the condition of the day-count \<open>calcularTEA\<close> consist of
  comparisons, which are false whenever an operand is NaN; they are translated here once
  more, from the same lines of the source, over numbers with the special values. Signed
  zeros do not matter for a comparison and are not distinguished.
\<close>

datatype number = Num real | NaN | Infinity | NegInfinity

fun js_lt :: "number \<Rightarrow> number \<Rightarrow> bool" where
  \<comment> \<open>the operator \<open><\<close>\<close>
  "js_lt (Num a) (Num b) = (a < b)"
| "js_lt (Num a) Infinity = True"
| "js_lt NegInfinity (Num b) = True"
| "js_lt NegInfinity Infinity = True"
| "js_lt _ _ = False"

fun js_le :: "number \<Rightarrow> number \<Rightarrow> bool" where
  \<comment> \<open>the operator \<open><=\<close>\<close>
  "js_le (Num a) (Num b) = (a \<le> b)"
| "js_le (Num a) Infinity = True"
| "js_le NegInfinity (Num b) = True"
| "js_le NegInfinity Infinity = True"
| "js_le Infinity Infinity = True"
| "js_le NegInfinity NegInfinity = True"
| "js_le _ _ = False"

definition js_gt :: "number \<Rightarrow> number \<Rightarrow> bool" where
  \<comment> \<open>the operator \<open>>\<close>\<close>
  "js_gt a b = js_lt b a"

definition Number_isIntegerJS :: "number \<Rightarrow> bool" where
  \<comment> \<open>\<open>Number.isInteger\<close> is false of NaN and of the infinities\<close>
  "Number_isIntegerJS x = (case x of Num r \<Rightarrow> Number_isInteger r | _ \<Rightarrow> False)"

record CalculoFinancieroInputJS =
  importeJS :: number
  cuotasJS :: number
  tnaJS :: number
  arancelProcesadorJS :: "number option"
  feeRiesgoProcesadorJS :: "number option"
  adicionalCobradorJS :: "number option"
  impuestosJS :: "number option"
  tnaCobradorJS :: "number option"

definition validarDatosEntradaJS :: "CalculoFinancieroInputJS \<Rightarrow> ValidationResult" where
  "validarDatosEntradaJS input =
     (if js_le (importeJS input) (Num 0)
        then \<lparr>isValid = False, errorMessage = Some ''El importe debe ser mayor a cero''\<rparr>
      else if js_le (cuotasJS input) (Num 0) \<or> \<not> Number_isIntegerJS (cuotasJS input)
        then \<lparr>isValid = False, errorMessage =
               Some (''El n'' @ [CHR 0xFA] @ ''mero de cuotas debe ser un entero mayor a cero'')\<rparr>
      else if js_lt (tnaJS input) (Num 0)
        then \<lparr>isValid = False, errorMessage = Some ''La TNA no puede ser negativa''\<rparr>
      else \<lparr>isValid = True, errorMessage = None\<rparr>)"

definition aniosJS :: "number \<Rightarrow> number" where
  \<comment> \<open>\<open>diasTotales = 28 + (30 * (cuotas - 1))\<close> and \<open>diasTotales / 360\<close>: NaN stays NaN and an
      infinity stays the same infinity under these four operations with positive constants\<close>
  "aniosJS cuotas' =
     (case cuotas' of
        Num c \<Rightarrow> (let diasTotales = 28 + (30 * (c - 1)) in Num (diasTotales / 360))
      | NaN \<Rightarrow> NaN | Infinity \<Rightarrow> Infinity | NegInfinity \<Rightarrow> NegInfinity)"

definition calcularTEA_condicion :: "number \<Rightarrow> number \<Rightarrow> bool" where
  \<comment> \<open>the condition of the \<open>if\<close> in \<open>calcularTEA\<close>, years \<open>> 0 && importe > 0\<close>: when it is
      false the function returns \<open>cft\<close>\<close>
  "calcularTEA_condicion importe' cuotas' =
     (let anios = aniosJS cuotas' in js_gt anios (Num 0) \<and> js_gt importe' (Num 0))"

definition enJS :: "CalculoFinancieroInput \<Rightarrow> CalculoFinancieroInputJS" where
  \<comment> \<open>an input of finite numbers, as an input of JavaScript numbers\<close>
  "enJS input =
     \<lparr>importeJS = Num (importe input), cuotasJS = Num (cuotas input), tnaJS = Num (tna input),
      arancelProcesadorJS = map_option Num (arancelProcesador input),
      feeRiesgoProcesadorJS = map_option Num (feeRiesgoProcesador input),
      adicionalCobradorJS = map_option Num (adicionalCobrador input),
      impuestosJS = map_option Num (impuestos input),
      tnaCobradorJS = map_option Num (tnaCobrador input)\<rparr>"

section \<open>Notions of the specification\<close>

text \<open>
  The specification's words, written down once so that the theorems below can compare the
  code with them: rounding half-up to \<open>d\<close> decimals, the two day-count factors, the
  discount coefficient of instalment \<open>i\<close>, the annuity factor, rounding to 6 decimals with
  the direction at a tie left open, and what "the rules are checked in order, the first
  failure wins" says about an orchestrator \<open>f\<close>.
\<close>

definition round_half_up :: "nat \<Rightarrow> real \<Rightarrow> real" where
  "round_half_up d x = of_int \<lfloor>x * 10 ^ d + 1 / 2\<rfloor> / 10 ^ d"

definition factor28 :: "real \<Rightarrow> real" where
  "factor28 r = 1 + (r / 100) * 28 / 360"

definition factor30 :: "real \<Rightarrow> real" where
  "factor30 r = 1 + (r / 100) * 30 / 360"

definition discount :: "real \<Rightarrow> nat \<Rightarrow> real" where
  "discount r i = (if i = 1 then 1 / factor28 r else 1 / (factor28 r * factor30 r ^ (i - 1)))"

definition annuity_factor :: "real \<Rightarrow> nat \<Rightarrow> real" where
  "annuity_factor m n = (m * (1 + m) ^ n) / ((1 + m) ^ n - 1)"

definition nearest_millionth :: "real \<Rightarrow> real \<Rightarrow> bool" where
  \<comment> \<open>\<open>y\<close> is \<open>x\<close> rounded to 6 decimals, as \<open>Math.round(x * 1000000) / 1000000\<close> gives it
      on doubles: \<open>y\<close> is a multiple of 0.000001 and within half of 0.000001 of \<open>x\<close>, each up to
      a relative error of 1e-12, which allows for the rounding of the double operations.
      Which of the two neighbours a tie gets is left open.\<close>
  "nearest_millionth y x \<longleftrightarrow>
     \<bar>y - x\<bar> \<le> 1 / (2 * 10 ^ 6) + \<bar>x\<bar> / 10 ^ 12 \<and>
     \<bar>y - of_int \<lfloor>y * 10 ^ 6 + 1 / 2\<rfloor> / 10 ^ 6\<bar> \<le> \<bar>y\<bar> / 10 ^ 12"

definition rejects_in_order ::
  "(CalculoFinancieroInput \<Rightarrow> error + 'r) \<Rightarrow> CalculoFinancieroInput \<Rightarrow> bool" where
  "rejects_in_order f input \<longleftrightarrow>
     (importe input \<le> 0 \<longrightarrow> f input = Inl (Error ''El importe debe ser mayor a cero'')) \<and>
     (0 < importe input \<and> (cuotas input \<le> 0 \<or> cuotas input \<notin> \<int>) \<longrightarrow>
        f input = Inl (Error (''El n'' @ [CHR 0xFA]
                              @ ''mero de cuotas debe ser un entero mayor a cero''))) \<and>
     (0 < importe input \<and> 0 < cuotas input \<and> cuotas input \<in> \<int> \<and> tna input < 0 \<longrightarrow>
        f input = Inl (Error ''La TNA no puede ser negativa'')) \<and>
     (0 < importe input \<and> 0 < cuotas input \<and> cuotas input \<in> \<int> \<and> 0 \<le> tna input \<longrightarrow>
        (\<exists>r. f input = Inr r))"

definition no_decrease ::
  "'a ResultadoCalculos_scheme \<Rightarrow> 'b ResultadoCalculos_scheme \<Rightarrow> bool" where
  \<comment> \<open>none of the four indicators of the monotonicity property is smaller in \<open>s\<close> than in \<open>r\<close>\<close>
  "no_decrease r s \<longleftrightarrow>
     coeficiente r \<le> coeficiente s \<and> tasaDirecta r \<le> tasaDirecta s \<and>
     tea r \<le> tea s \<and> cft r \<le> cft s"

text \<open>A concrete input without fees, for the examples.\<close>

definition entrada :: "real \<Rightarrow> real \<Rightarrow> real \<Rightarrow> CalculoFinancieroInput" where
  "entrada i c t =
     \<lparr>importe = i, cuotas = c, tna = t, arancelProcesador = None, feeRiesgoProcesador = None,
      adicionalCobrador = None, impuestos = None, tnaCobrador = None\<rparr>"

section \<open>Basic facts about the model\<close>

lemma Number_isInteger_iff: "Number_isInteger x \<longleftrightarrow> x \<in> \<int>"
  by (auto simp: Number_isInteger_def Ints_def)

lemma Number_isInteger_real [simp]: "Number_isInteger (real n)"
  by (simp add: Number_isInteger_def)

lemma Math_pow_real [simp]: "Math_pow b (real n) = b ^ n"
  by (simp add: Math_pow_def)

lemma Math_pow_numeral [simp]: "Math_pow b (numeral k) = b ^ numeral k"
  using Math_pow_real[of b "numeral k"] by simp

lemma Math_round_6: "Math_round (x * 1000000) / 1000000 = round_half_up 6 x"
  by (simp add: Math_round_def round_half_up_def)

lemma round_half_up_mono: "x \<le> y \<Longrightarrow> round_half_up d x \<le> round_half_up d y"
  unfolding round_half_up_def
  by (intro divide_right_mono) (auto intro!: floor_mono mult_right_mono)

lemma round_half_up_error: "\<bar>round_half_up d x - x\<bar> \<le> 1 / (2 * 10 ^ d)"
proof -
  define y where "y = x * 10 ^ d"
  have "\<bar>of_int \<lfloor>y + 1 / 2\<rfloor> - y\<bar> \<le> 1 / 2" by linarith
  then have "\<bar>of_int \<lfloor>y + 1 / 2\<rfloor> - y\<bar> / 10 ^ d \<le> (1 / 2) / 10 ^ d"
    by (intro divide_right_mono) auto
  moreover have "round_half_up d x - x = (of_int \<lfloor>y + 1 / 2\<rfloor> - y) / 10 ^ d"
    by (simp add: round_half_up_def y_def diff_divide_distrib)
  ultimately show ?thesis by simp
qed

lemma isValid_iff:
  "isValid (validarDatosEntrada input) \<longleftrightarrow>
     0 < importe input \<and> 0 < cuotas input \<and> cuotas input \<in> \<int> \<and> 0 \<le> tna input"
  by (auto simp: validarDatosEntrada_def Number_isInteger_iff)

lemma valid_cuotas:
  assumes "isValid (validarDatosEntrada input)"
  shows "cuotas input = real (nat \<lfloor>cuotas input\<rfloor>)" and "0 < nat \<lfloor>cuotas input\<rfloor>"
proof -
  from assms have "cuotas input \<in> \<int>" and pos: "0 < cuotas input"
    by (simp_all add: isValid_iff)
  then obtain k :: int where k: "cuotas input = of_int k" by (auto elim: Ints_cases)
  with pos have "0 < k" by simp
  with k show "cuotas input = real (nat \<lfloor>cuotas input\<rfloor>)" and "0 < nat \<lfloor>cuotas input\<rfloor>"
    by simp_all
qed

lemma sumaCoeficientes_loop_eq:
  "0 < i \<Longrightarrow> sumaCoeficientes_loop t c i s
     = s + (\<Sum>k = i..nat \<lfloor>c\<rfloor>. calcularCoeficienteCuota t (real k))"
proof (induction t c i s rule: sumaCoeficientes_loop.induct)
  case (1 t c i s)
  show ?case
  proof (cases "real i \<le> c")
    case True
    then have le: "i \<le> nat \<lfloor>c\<rfloor>" by linarith
    have "(\<Sum>k = i..nat \<lfloor>c\<rfloor>. calcularCoeficienteCuota t (real k))
          = calcularCoeficienteCuota t (real i)
            + (\<Sum>k = Suc i..nat \<lfloor>c\<rfloor>. calcularCoeficienteCuota t (real k))"
      using le by (simp add: sum.atLeast_Suc_atMost)
    with True "1.IH" show ?thesis
      by (subst sumaCoeficientes_loop.simps) simp
  next
    case False
    then have "nat \<lfloor>c\<rfloor> < i" using \<open>0 < i\<close> by linarith
    with False show ?thesis
      by (subst sumaCoeficientes_loop.simps) simp
  qed
qed

lemma calcularCoeficienteCuota_discount:
  assumes "0 < i"
  shows "calcularCoeficienteCuota r (real i) = discount r i"
proof (cases "i = 1")
  case True
  then show ?thesis
    by (simp add: calcularCoeficienteCuota_def discount_def factor28_def Let_def)
next
  case False
  with assms obtain j where j: "i = Suc j" and "j \<noteq> 0"
    by (cases i) auto
  have "Math_pow b (real (Suc j) - 1) = b ^ j" for b
    using Math_pow_real[of b j] by simp
  with j \<open>j \<noteq> 0\<close> show ?thesis
    by (simp add: calcularCoeficienteCuota_def discount_def factor28_def factor30_def Let_def)
qed

lemma suma_discount:
  "sumaCoeficientes_loop r c 1 0 = (\<Sum>i = 1..nat \<lfloor>c\<rfloor>. discount r i)"
proof -
  have "(\<Sum>k = 1..nat \<lfloor>c\<rfloor>. calcularCoeficienteCuota r (real k))
        = (\<Sum>i = 1..nat \<lfloor>c\<rfloor>. discount r i)"
    by (intro sum.cong refl calcularCoeficienteCuota_discount) simp
  then show ?thesis by (simp add: sumaCoeficientes_loop_eq)
qed

lemma Math_pow_one [simp]: "Math_pow b 1 = b"
  using Math_pow_real[of b 1] by simp

lemma Math_pow_cuotas:
  assumes "isValid (validarDatosEntrada input)"
  shows "Math_pow b (cuotas input) = b ^ nat \<lfloor>cuotas input\<rfloor>"
  using Math_pow_real[of b "nat \<lfloor>cuotas input\<rfloor>"] valid_cuotas(1)[OF assms] by simp

lemma A1_fields:
  assumes "isValid (validarDatosEntrada input)"
  shows "\<exists>a. calcularFinanciamiento_A1 input = Inr a
    \<and> coeficiente a = calcularCoeficiente_A1 (calcularTEM (tna input)) (cuotas input)
    \<and> tasaDirecta a = calcularTasaDirecta (coeficiente a) (cuotas input)
    \<and> coeficienteConIVA a = calcularCoeficienteConIVA_A1 (coeficiente a)
    \<and> tea a = calcularTEA_A (calcularTEM (tna input))
    \<and> cft a = calcularCFT_A (coeficiente a) (cuotas input)
    \<and> cuota a = calcularCuota_A1 (importe input) (coeficiente a)
    \<and> cuotaConIVA a = calcularCuota_A1 (importe input) (coeficienteConIVA a)
    \<and> montoTotal a = calcularMontoTotal_A1 (cuota a) (cuotas input)
    \<and> montoTotalConIVA a = calcularMontoTotal_A1 (cuotaConIVA a) (cuotas input)
    \<and> interesTotal a = calcularInteresTotal_A1 (montoTotal a) (importe input)
    \<and> interesTotalConIVA a = calcularInteresTotal_A1 (montoTotalConIVA a) (importe input)"
  using assms by (simp add: calcularFinanciamiento_A1_def Let_def)

lemma A2_fields:
  assumes "isValid (validarDatosEntrada input)"
  shows "\<exists>a. calcularFinanciamiento_A2 input = Inr a
    \<and> coeficiente a
        = calcularCoeficiente_A2 (calcularTEM (tnaCobrador_resultante input)) (cuotas input)
    \<and> tasaDirecta a = calcularTasaDirecta (coeficiente a) (cuotas input)
    \<and> coeficienteConIVA a = calcularCoeficienteConIVA (coeficiente a)
    \<and> tea a = calcularTEA_A (calcularTEM (tnaCobrador_resultante input))
    \<and> cft a = calcularCFT_A (coeficiente a) (cuotas input)
    \<and> cuota a = calcularCuota (importe input) (coeficiente a)
    \<and> cuotaConIVA a = calcularCuota (importe input) (coeficienteConIVA a)
    \<and> montoTotal a = calcularMontoTotal (cuota a) (cuotas input)
    \<and> montoTotalConIVA a = calcularMontoTotal (cuotaConIVA a) (cuotas input)
    \<and> interesTotal a = calcularInteresTotal (montoTotal a) (importe input)
    \<and> interesTotalConIVA a = calcularInteresTotal (montoTotalConIVA a) (importe input)"
  using assms by (simp add: calcularFinanciamiento_A2_def Let_def)

lemma B_fields:
  assumes "isValid (validarDatosEntrada input)"
  shows "\<exists>b. calcularFinanciamiento_B input = Inr b
    \<and> coeficiente b = calcularCoeficiente_B (tnaCobrador_resultante input) (cuotas input)
    \<and> tasaDirecta b = calcularTasaDirecta (coeficiente b) (cuotas input)
    \<and> coeficienteConIVA b = calcularCoeficienteConIVA (coeficiente b)
    \<and> tea b = calcularTEA_B (importe input) (cuotas input) (tnaCobrador_resultante input)
    \<and> cft b = calcularCFT_B (importe input) (cuotas input) (tnaCobrador_resultante input)
    \<and> cuota b = calcularCuota (importe input) (coeficiente b)
    \<and> cuotaConIVA b = calcularCuota (importe input) (coeficienteConIVA b)
    \<and> montoTotal b = calcularMontoTotal (cuota b) (cuotas input)
    \<and> montoTotalConIVA b = calcularMontoTotal (cuotaConIVA b) (cuotas input)
    \<and> interesTotal b = calcularInteresTotal (montoTotal b) (importe input)
    \<and> interesTotalConIVA b = calcularInteresTotal (montoTotalConIVA b) (importe input)
    \<and> detallesPorCuota b = calcularDetallesPorCuota (importe input) (cuotas input)
          (tnaCobrador_resultante input) (coeficiente b) (tea b) (cft b) (tasaDirecta b)"
  using assms by (simp add: calcularFinanciamiento_B_def Let_def)

lemma detalles_loop_eq:
  "0 < i \<Longrightarrow> detalles_loop imp c r cu te cf td i ds
     = ds @ map (\<lambda>k. \<lparr>numeroCuota = real k, importe = imp, tnaResultante = r, cuota = cu,
          coeficiente = Math_round (calcularCoeficienteCuota r (real k) * 1000000) / 1000000,
          coeficienteConIVA = Math_round (calcularCoeficienteConIVA
              (calcularCoeficienteCuota r (real k)) * 1000000) / 1000000,
          tea = te, cft = cf, tasaDirecta = td\<rparr>) [i..<Suc (nat \<lfloor>c\<rfloor>)]"
proof (induction imp c r cu te cf td i ds rule: detalles_loop.induct)
  case (1 imp c r cu te cf td i ds)
  show ?case
  proof (cases "real i \<le> c")
    case True
    then have "i < Suc (nat \<lfloor>c\<rfloor>)" by linarith
    then have "[i..<Suc (nat \<lfloor>c\<rfloor>)] = i # [Suc i..<Suc (nat \<lfloor>c\<rfloor>)]"
      by (rule upt_conv_Cons)
    with True "1.IH" show ?thesis
      by (subst detalles_loop.simps) (simp add: Let_def)
  next
    case False
    then have "nat \<lfloor>c\<rfloor> < i" using \<open>0 < i\<close> by linarith
    with False show ?thesis
      by (subst detalles_loop.simps) simp
  qed
qed

lemma calcularCoeficienteConIVA_eq:
  "calcularCoeficienteConIVA c = round_half_up 6 (c * (1 + IVA))"
  unfolding calcularCoeficienteConIVA_def Let_def Math_round_6 by (rule refl)

lemma calcularCoeficiente_B_eq:
  "calcularCoeficiente_B r c =
     (if r = 0 then round_half_up 6 (1 / c)
      else round_half_up 6 (1 / ((\<Sum>i = 1..nat \<lfloor>c\<rfloor>. discount r i) / c)))"
  unfolding calcularCoeficiente_B_def calcularCoeficientePromedio_def Let_def suma_discount
    Math_round_6
  by (rule refl)

lemma calcularCostoFinanciero_eq:
  "calcularCostoFinanciero v c r = v * (1 - (1 / c) * (\<Sum>i = 1..nat \<lfloor>c\<rfloor>. discount r i))"
  unfolding calcularCostoFinanciero_def Let_def suma_discount by (rule refl)

lemma calcularCoeficiente_A1_annuity:
  assumes "isValid (validarDatosEntrada input)"
  shows "calcularCoeficiente_A1 m (cuotas input)
    = (if m = 0 then 1 / cuotas input else annuity_factor m (nat \<lfloor>cuotas input\<rfloor>))"
  by (simp add: calcularCoeficiente_A1_def Let_def Math_pow_cuotas[OF assms] annuity_factor_def)

lemma calcularCoeficiente_A2_annuity:
  assumes "isValid (validarDatosEntrada input)"
  shows "calcularCoeficiente_A2 m (cuotas input)
    = round_half_up 6
        (if m = 0 then 1 / cuotas input else annuity_factor m (nat \<lfloor>cuotas input\<rfloor>))"
  unfolding calcularCoeficiente_A2_def Let_def Math_pow_cuotas[OF assms] Math_round_6
    annuity_factor_def
  by simp

lemma inv_years_not_integer:
  assumes "0 < n"
  shows "\<not> Number_isInteger (1 / ((28 + 30 * (real n - 1)) / 360))"
proof
  assume "Number_isInteger (1 / ((28 + 30 * (real n - 1)) / 360))"
  then obtain k :: int where k: "1 / ((28 + 30 * (real n - 1)) / 360) = of_int k"
    unfolding Number_isInteger_def by metis
  have pos: "0 < 30 * real n - 2" using assms by simp
  from k have "360 = of_int k * (30 * real n - 2)"
    using pos by (simp add: field_simps)
  then have "real_of_int (k * (30 * int n - 2)) = real_of_int 360" by simp
  then have eq: "k * (30 * int n - 2) = 360" by (simp only: of_int_eq_iff)
  define j where "j = k * int n - 12"
  from eq have kj: "k = 15 * j" by (simp add: j_def algebra_simps)
  with eq have j12: "j * (15 * int n - 1) = 12" by (simp add: algebra_simps)
  have m: "14 \<le> 15 * int n - 1" using assms by simp
  have "0 < j"
  proof (rule ccontr)
    assume "\<not> 0 < j"
    then have "j * (15 * int n - 1) \<le> 0" using m by (intro mult_nonpos_nonneg) simp_all
    with j12 show False by simp
  qed
  then have "1 * 14 \<le> j * (15 * int n - 1)" using m by (intro mult_mono) simp_all
  with j12 show False by simp
qed

lemma valid_years:
  assumes "isValid (validarDatosEntrada input)"
  shows "28 / 360 \<le> (28 + 30 * (cuotas input - 1)) / 360"
    and "\<not> Number_isInteger (1 / ((28 + 30 * (cuotas input - 1)) / 360))"
proof -
  from valid_cuotas[OF assms] have c: "cuotas input = real (nat \<lfloor>cuotas input\<rfloor>)"
    and n: "0 < nat \<lfloor>cuotas input\<rfloor>" by simp_all
  from n have "1 \<le> real (nat \<lfloor>cuotas input\<rfloor>)" by linarith
  with c have "1 \<le> cuotas input" by simp
  then show "28 / 360 \<le> (28 + 30 * (cuotas input - 1)) / 360" by simp
  from inv_years_not_integer[OF n] c
  show "\<not> Number_isInteger (1 / ((28 + 30 * (cuotas input - 1)) / 360))" by simp
qed

lemma calcularTEA_B_eq:
  "calcularTEA_B a c r =
     (if (28 + 30 * (c - 1)) / 360 > 0 \<and> a > 0
      then (Math_pow ((a + calcularCostoFinanciero a c r) / a) (1 / ((28 + 30 * (c - 1)) / 360)) - 1) * 100
      else (calcularCostoFinanciero a c r / a) * 100)"
  unfolding calcularTEA_B_def calcularCFT_B_def Let_def by (rule refl)

subsection \<open>Monotonicity in the rate\<close>

lemma Math_pow_mono:
  assumes "0 \<le> a" "a \<le> b" "0 \<le> e"
  shows "Math_pow a e \<le> Math_pow b e"
proof (cases "Number_isInteger e")
  case True
  with assms show ?thesis by (simp add: Math_pow_def power_int_mono)
next
  case False
  with assms show ?thesis by (simp add: Math_pow_def powr_mono2)
qed

lemma round_half_up_0 [simp]: "round_half_up d 0 = 0"
  by (simp add: round_half_up_def)

lemma factor_ge_1:
  assumes "0 \<le> r"
  shows "1 \<le> factor28 r" and "1 \<le> factor30 r"
  using assms by (simp_all add: factor28_def factor30_def)

lemma factor_mono:
  assumes "r \<le> s"
  shows "factor28 r \<le> factor28 s" and "factor30 r \<le> factor30 s"
  using assms by (simp_all add: factor28_def factor30_def)

lemma discount_closed: "0 < i \<Longrightarrow> discount r i = 1 / (factor28 r * factor30 r ^ (i - 1))"
  by (simp add: discount_def)

lemma discount_bounds:
  assumes "0 \<le> r" "0 < i"
  shows "0 < discount r i" and "discount r i \<le> 1"
proof -
  from factor_ge_1[OF assms(1)] have a: "1 \<le> factor28 r" and b: "1 \<le> factor30 r" .
  then have "1 \<le> factor30 r ^ (i - 1)" by simp
  have "1 * 1 \<le> factor28 r * factor30 r ^ (i - 1)"
    by (intro mult_mono) (use a \<open>1 \<le> factor30 r ^ (i - 1)\<close> in simp_all)
  then have c: "1 \<le> factor28 r * factor30 r ^ (i - 1)" by simp
  then show "0 < discount r i" and "discount r i \<le> 1"
    using assms(2) by (simp_all add: discount_closed)
qed

lemma discount_antimono:
  assumes "0 \<le> r" "r \<le> s" "0 < i"
  shows "discount s i \<le> discount r i"
proof -
  from factor_ge_1[OF assms(1)] have a: "1 \<le> factor28 r" and b: "1 \<le> factor30 r" .
  from factor_mono[OF assms(2)] have m: "factor28 r \<le> factor28 s" "factor30 r \<le> factor30 s" .
  have p: "factor30 r ^ (i - 1) \<le> factor30 s ^ (i - 1)"
    by (intro power_mono) (use b m in simp_all)
  have le: "factor28 r * factor30 r ^ (i - 1) \<le> factor28 s * factor30 s ^ (i - 1)"
    by (intro mult_mono) (use a b m p in simp_all)
  have "0 < factor28 r * factor30 r ^ (i - 1)"
    by (intro mult_pos_pos zero_less_power) (use a b in simp_all)
  with le show ?thesis
    using assms(3) by (simp add: discount_closed frac_le)
qed

lemma suma_bounds:
  assumes "0 \<le> r" "0 < n"
  shows "0 < (\<Sum>i = 1..n. discount r i)" and "(\<Sum>i = 1..n. discount r i) \<le> real n"
proof -
  show "0 < (\<Sum>i = 1..n. discount r i)"
    by (rule sum_pos) (use assms in \<open>auto intro: discount_bounds\<close>)
  have "(\<Sum>i = 1..n. discount r i) \<le> (\<Sum>i = 1..n. 1)"
    by (rule sum_mono) (use assms in \<open>auto intro: discount_bounds\<close>)
  then show "(\<Sum>i = 1..n. discount r i) \<le> real n" by simp
qed

lemma suma_antimono:
  assumes "0 \<le> r" "r \<le> s"
  shows "(\<Sum>i = 1..n. discount s i) \<le> (\<Sum>i = 1..n. discount r i)"
  by (rule sum_mono) (use assms in \<open>auto intro: discount_antimono\<close>)

lemma calcularTasaDirecta_mono:
  assumes "c \<le> c'" "0 \<le> n"
  shows "calcularTasaDirecta c n \<le> calcularTasaDirecta c' n"
  using assms by (simp add: calcularTasaDirecta_def mult_right_mono)

lemma calcularTEA_A_mono:
  assumes "- 1 \<le> m" "m \<le> m'"
  shows "calcularTEA_A m \<le> calcularTEA_A m'"
  using assms by (simp add: calcularTEA_A_def power_mono)

lemma calcularCoeficiente_B_mono:
  assumes "isValid (validarDatosEntrada input)" "0 \<le> r" "r \<le> r'"
  shows "calcularCoeficiente_B r (cuotas input) \<le> calcularCoeficiente_B r' (cuotas input)"
proof -
  let ?n = "nat \<lfloor>cuotas input\<rfloor>"
  let ?S = "\<lambda>r. \<Sum>i = 1..?n. discount r i"
  from valid_cuotas[OF assms(1)] have c: "cuotas input = real ?n" and n: "0 < ?n" by simp_all
  from n have c1: "1 \<le> cuotas input" using c by linarith
  have r': "0 \<le> r'" using assms by simp
  have gen: "1 / (?S r / cuotas input) \<le> 1 / (?S r' / cuotas input)"
  proof -
    have p: "0 < ?S r' / cuotas input" using suma_bounds(1)[OF r' n] c1 by simp
    have q: "?S r' / cuotas input \<le> ?S r / cuotas input"
      using suma_antimono[OF assms(2,3)] c1 by (simp add: divide_right_mono)
    show ?thesis by (rule frac_le) (use p q in simp_all)
  qed
  have zero: "1 / cuotas input \<le> 1 / (?S r' / cuotas input)"
  proof -
    have "?S r' \<le> cuotas input" using suma_bounds(2)[OF r' n] c by simp
    moreover have "0 < ?S r'" by (rule suma_bounds(1)[OF r' n])
    ultimately have "1 \<le> cuotas input / ?S r'" by simp
    moreover have "1 / cuotas input \<le> 1" using c1 by simp
    ultimately show ?thesis by simp
  qed
  show ?thesis
  proof (cases "r' = 0")
    case True
    with assms have "r = 0" by simp
    with True show ?thesis by simp
  next
    case False
    show ?thesis
    proof (cases "r = 0")
      case True
      with False zero show ?thesis
        by (simp add: calcularCoeficiente_B_eq round_half_up_mono)
    next
      case r: False
      with False gen show ?thesis
        by (simp add: calcularCoeficiente_B_eq round_half_up_mono)
    qed
  qed
qed

lemma calcularCostoFinanciero_mono:
  assumes "isValid (validarDatosEntrada input)" "0 \<le> r" "r \<le> r'"
  shows "calcularCostoFinanciero (importe input) (cuotas input) r
           \<le> calcularCostoFinanciero (importe input) (cuotas input) r'"
    and "0 \<le> calcularCostoFinanciero (importe input) (cuotas input) r"
proof -
  let ?n = "nat \<lfloor>cuotas input\<rfloor>"
  let ?S = "\<lambda>r. \<Sum>i = 1..?n. discount r i"
  from valid_cuotas[OF assms(1)] have c: "cuotas input = real ?n" and n: "0 < ?n" by simp_all
  from n have c1: "1 \<le> cuotas input" using c by linarith
  have a: "0 < importe input" using assms(1) by (simp add: isValid_iff)
  have "(1 / cuotas input) * ?S r' \<le> (1 / cuotas input) * ?S r"
    using suma_antimono[OF assms(2,3)] c1 by (intro mult_left_mono) simp_all
  then have "1 - (1 / cuotas input) * ?S r \<le> 1 - (1 / cuotas input) * ?S r'" by simp
  then show "calcularCostoFinanciero (importe input) (cuotas input) r
           \<le> calcularCostoFinanciero (importe input) (cuotas input) r'"
    unfolding calcularCostoFinanciero_eq using a by (intro mult_left_mono) simp_all
  have "?S r \<le> cuotas input" using suma_bounds(2)[OF assms(2) n] c by simp
  then have "(1 / cuotas input) * ?S r \<le> 1" using c1 by (simp add: field_simps)
  then show "0 \<le> calcularCostoFinanciero (importe input) (cuotas input) r"
    unfolding calcularCostoFinanciero_eq using a by (intro mult_nonneg_nonneg) simp_all
qed

lemma calcularCFT_B_mono:
  assumes "isValid (validarDatosEntrada input)" "0 \<le> r" "r \<le> r'"
  shows "calcularCFT_B (importe input) (cuotas input) r
           \<le> calcularCFT_B (importe input) (cuotas input) r'"
proof -
  have a: "0 < importe input" using assms(1) by (simp add: isValid_iff)
  from calcularCostoFinanciero_mono(1)[OF assms] a show ?thesis
    by (simp add: calcularCFT_B_def Let_def divide_right_mono)
qed

lemma calcularTEA_B_mono:
  assumes "isValid (validarDatosEntrada input)" "0 \<le> r" "r \<le> r'"
  shows "calcularTEA_B (importe input) (cuotas input) r
           \<le> calcularTEA_B (importe input) (cuotas input) r'"
proof -
  have a: "0 < importe input" using assms(1) by (simp add: isValid_iff)
  from valid_years(1)[OF assms(1)] have y: "0 < (28 + 30 * (cuotas input - 1)) / 360"
    by linarith
  let ?cf = "\<lambda>r. calcularCostoFinanciero (importe input) (cuotas input) r"
  have "0 \<le> (importe input + ?cf r) / importe input"
    using calcularCostoFinanciero_mono(2)[OF assms] a by simp
  moreover have "(importe input + ?cf r) / importe input \<le> (importe input + ?cf r') / importe input"
    using calcularCostoFinanciero_mono(1)[OF assms] a by (simp add: divide_right_mono)
  moreover have "0 \<le> 1 / ((28 + 30 * (cuotas input - 1)) / 360)" using y by simp
  ultimately have "Math_pow ((importe input + ?cf r) / importe input)
                     (1 / ((28 + 30 * (cuotas input - 1)) / 360))
                \<le> Math_pow ((importe input + ?cf r') / importe input)
                     (1 / ((28 + 30 * (cuotas input - 1)) / 360))"
    by (rule Math_pow_mono)
  with y a show ?thesis unfolding calcularTEA_B_eq by simp
qed

subsection \<open>Rounding to 6 decimals\<close>

lemma round_half_up_idem: "round_half_up d (round_half_up d x) = round_half_up d x"
proof -
  have "\<lfloor>of_int \<lfloor>x * 10 ^ d + 1 / 2\<rfloor> / 10 ^ d * 10 ^ d + (1 / 2 :: real)\<rfloor>
          = \<lfloor>x * 10 ^ d + 1 / 2\<rfloor>"
    by simp
  then show ?thesis by (simp add: round_half_up_def)
qed

lemma nearest_millionth_round: "nearest_millionth (round_half_up 6 x) x"
proof -
  have "\<bar>round_half_up 6 x - x\<bar> \<le> 1 / (2 * 10 ^ 6)" by (rule round_half_up_error)
  moreover have "(0::real) \<le> \<bar>x\<bar> / 10 ^ 12" by simp
  ultimately have a: "\<bar>round_half_up 6 x - x\<bar> \<le> 1 / (2 * 10 ^ 6) + \<bar>x\<bar> / 10 ^ 12"
    by linarith
  have "of_int \<lfloor>round_half_up 6 x * 10 ^ 6 + 1 / 2\<rfloor> / 10 ^ 6 = round_half_up 6 x"
    using round_half_up_idem[of 6 x] unfolding round_half_up_def[of 6 "round_half_up 6 x"] .
  then have b: "\<bar>round_half_up 6 x - of_int \<lfloor>round_half_up 6 x * 10 ^ 6 + 1 / 2\<rfloor> / 10 ^ 6\<bar>
                  \<le> \<bar>round_half_up 6 x\<bar> / 10 ^ 12"
    by simp
  from a b show ?thesis unfolding nearest_millionth_def by (rule conjI)
qed

subsection \<open>The validator and the guard on JavaScript numbers\<close>

lemma validarDatosEntradaJS_enJS: "validarDatosEntradaJS (enJS input) = validarDatosEntrada input"
  by (simp add: validarDatosEntradaJS_def validarDatosEntrada_def enJS_def
      Number_isIntegerJS_def)

lemma isValidJS_iff:
  "isValid (validarDatosEntradaJS x) \<longleftrightarrow>
     \<not> js_le (importeJS x) (Num 0) \<and> \<not> js_le (cuotasJS x) (Num 0)
     \<and> Number_isIntegerJS (cuotasJS x) \<and> \<not> js_lt (tnaJS x) (Num 0)"
  by (simp add: validarDatosEntradaJS_def)

lemma calcularTEA_B_condicion:
  "calcularTEA_B i c t =
     (if calcularTEA_condicion (Num i) (Num c)
      then (Math_pow ((i + calcularCostoFinanciero i c t) / i)
              (1 / ((28 + (30 * (c - 1))) / 360)) - 1) * 100
      else calcularCFT_B i c t)"
  by (simp add: calcularTEA_B_def calcularTEA_condicion_def aniosJS_def js_gt_def Let_def)

section \<open>The claims\<close>

text \<open>
  C1 (as amended). Every revision of \<open>calcularFinanciamiento\<close> runs the validator first, and
  the rules are checked in order, the first failure winning: \<open>importe \<le> 0\<close> fails with the
  message "El importe debe ser mayor a cero"; otherwise \<open>cuotas \<le> 0\<close> or a \<open>cuotas\<close> that is
  not an integer fails with "El n\'umero de cuotas debe ser un entero mayor a cero"; otherwise
  \<open>tna < 0\<close> fails with "La TNA no puede ser negativa". A failure is the error alone, with no
  result record; every other input gives a complete result.
\<close>

theorem C1_validation_in_order:
  "rejects_in_order calcularFinanciamiento_A1 input \<and>
   rejects_in_order calcularFinanciamiento_A2 input \<and>
   rejects_in_order calcularFinanciamiento_B input"
  unfolding rejects_in_order_def calcularFinanciamiento_A1_def calcularFinanciamiento_A2_def
    calcularFinanciamiento_B_def
  by (simp add: validarDatosEntrada_def Number_isInteger_iff throw_Error_def Let_def)

text \<open>
  C1 at one input per rule and a valid one: a negative amount, zero instalments, a negative
  nominal rate, and 10000 over 12 instalments at 120 percent.
\<close>

theorem C1_validation_in_order_witness:
  "calcularFinanciamiento_A1 (entrada (-100) 12 120)
     = Inl (Error ''El importe debe ser mayor a cero'') \<and>
   calcularFinanciamiento_B (entrada 10000 0 120)
     = Inl (Error (''El n'' @ [CHR 0xFA] @ ''mero de cuotas debe ser un entero mayor a cero'')) \<and>
   calcularFinanciamiento_A2 (entrada 10000 12 (-1))
     = Inl (Error ''La TNA no puede ser negativa'') \<and>
   (\<exists>r. calcularFinanciamiento_B (entrada 10000 12 120) = Inr r)"
  using C1_validation_in_order[of "entrada (-100) 12 120"]
    C1_validation_in_order[of "entrada 10000 0 120"]
    C1_validation_in_order[of "entrada 10000 12 (-1)"]
    C1_validation_in_order[of "entrada 10000 12 120"]
  by (simp add: rejects_in_order_def entrada_def)

text \<open>
  C1 as the specification words it does not hold: the message of the first rule is not the
  English text "amount must be greater than zero".
\<close>

theorem C1_message_counterexample:
  "importe (entrada (-100) 12 120) \<le> 0 \<and>
   calcularFinanciamiento_A1 (entrada (-100) 12 120)
     \<noteq> Inl (Error ''amount must be greater than zero'')"
  by (simp add: entrada_def calcularFinanciamiento_A1_def validarDatosEntrada_def
      throw_Error_def Let_def)

text \<open>
  C2 (as amended). For every valid input of the uniform-rate method, with \<open>n\<close> the number of
  instalments: in the revision without fees the monthly rate is \<open>m = (tna / 100) / 12\<close> and
  the coefficient is returned as computed, not rounded; it is \<open>1 / n\<close> when \<open>m = 0\<close> and
  the annuity factor \<open>(m * (1 + m) ^ n) / ((1 + m) ^ n - 1)\<close> when the nominal rate is at
  least 1 percent (\<open>1 / 1200 \<le> m\<close>). In the revision with fees \<open>m\<close> is derived from the
  resultant rate and the coefficient is that value (\<open>1 / n\<close> when \<open>m = 0\<close>, the annuity
  factor when the resultant rate is at least 1 percent) rounded to 6 decimals, the direction
  at a tie left open. Nothing is said about positive rates under 1 percent.
\<close>

theorem C2_annuity_coefficient:
  assumes "isValid (validarDatosEntrada input)"
  defines "n \<equiv> nat \<lfloor>cuotas input\<rfloor>"
  defines "m1 \<equiv> (tna input / 100) / 12"
  defines "m2 \<equiv> (tnaCobrador_resultante input / 100) / 12"
  shows "(\<exists>a. calcularFinanciamiento_A1 input = Inr a
            \<and> (m1 = 0 \<longrightarrow> coeficiente a = 1 / cuotas input)
            \<and> (1 / 1200 \<le> m1 \<longrightarrow> coeficiente a = annuity_factor m1 n))
    \<and> (\<exists>a. calcularFinanciamiento_A2 input = Inr a
            \<and> (m2 = 0 \<longrightarrow> nearest_millionth (coeficiente a) (1 / cuotas input))
            \<and> (1 / 1200 \<le> m2 \<longrightarrow> nearest_millionth (coeficiente a) (annuity_factor m2 n)))"
proof -
  from A1_fields[OF assms(1)] obtain a where a: "calcularFinanciamiento_A1 input = Inr a"
    and ca: "coeficiente a = calcularCoeficiente_A1 (calcularTEM (tna input)) (cuotas input)"
    by blast
  have "m1 = 0 \<longrightarrow> coeficiente a = 1 / cuotas input"
    unfolding ca calcularCoeficiente_A1_annuity[OF assms(1)] m1_def calcularTEM_def by simp
  moreover have "1 / 1200 \<le> m1 \<longrightarrow> coeficiente a = annuity_factor m1 n"
    unfolding ca calcularCoeficiente_A1_annuity[OF assms(1)] m1_def n_def calcularTEM_def
    by auto
  ultimately have first: "\<exists>a. calcularFinanciamiento_A1 input = Inr a
            \<and> (m1 = 0 \<longrightarrow> coeficiente a = 1 / cuotas input)
            \<and> (1 / 1200 \<le> m1 \<longrightarrow> coeficiente a = annuity_factor m1 n)"
    using a by blast
  from A2_fields[OF assms(1)] obtain b where b: "calcularFinanciamiento_A2 input = Inr b"
    and cb: "coeficiente b
        = calcularCoeficiente_A2 (calcularTEM (tnaCobrador_resultante input)) (cuotas input)"
    by blast
  have "m2 = 0 \<longrightarrow> nearest_millionth (coeficiente b) (1 / cuotas input)"
    unfolding cb calcularCoeficiente_A2_annuity[OF assms(1)] m2_def calcularTEM_def
    by (simp add: nearest_millionth_round)
  moreover have "1 / 1200 \<le> m2 \<longrightarrow> nearest_millionth (coeficiente b) (annuity_factor m2 n)"
    unfolding cb calcularCoeficiente_A2_annuity[OF assms(1)] m2_def n_def calcularTEM_def
    by (auto simp: nearest_millionth_round)
  ultimately have "\<exists>a. calcularFinanciamiento_A2 input = Inr a
            \<and> (m2 = 0 \<longrightarrow> nearest_millionth (coeficiente a) (1 / cuotas input))
            \<and> (1 / 1200 \<le> m2 \<longrightarrow> nearest_millionth (coeficiente a) (annuity_factor m2 n))"
    using b by blast
  with first show ?thesis by blast
qed

text \<open>
  C2 at concrete inputs: one instalment at 12 percent (monthly rate 0.01, annuity factor
  1.01) and three instalments at rate 0.
\<close>

theorem C2_annuity_coefficient_witness:
  "isValid (validarDatosEntrada (entrada 1000 1 12)) \<and>
   isValid (validarDatosEntrada (entrada 1000 3 0)) \<and>
   (1 / 1200 :: real) \<le> (tna (entrada 1000 1 12) / 100) / 12 \<and>
   (1 / 1200 :: real) \<le> (tnaCobrador_resultante (entrada 1000 1 12) / 100) / 12 \<and>
   (tna (entrada 1000 3 0) / 100) / 12 = 0 \<and>
   (tnaCobrador_resultante (entrada 1000 3 0) / 100) / 12 = 0 \<and>
   map_sum id coeficiente (calcularFinanciamiento_A1 (entrada 1000 1 12)) = Inr (101 / 100) \<and>
   map_sum id coeficiente (calcularFinanciamiento_A1 (entrada 1000 3 0)) = Inr (1 / 3) \<and>
   (\<exists>a. calcularFinanciamiento_A2 (entrada 1000 1 12) = Inr a
        \<and> nearest_millionth (coeficiente a) (101 / 100)) \<and>
   (\<exists>a. calcularFinanciamiento_A2 (entrada 1000 3 0) = Inr a
        \<and> nearest_millionth (coeficiente a) (1 / 3))"
proof -
  have v: "isValid (validarDatosEntrada (entrada 1000 1 12))"
    and w: "isValid (validarDatosEntrada (entrada 1000 3 0))"
    by (simp_all add: isValid_iff entrada_def)
  have r: "tnaCobrador_resultante (entrada 1000 1 12) = 12"
    "tnaCobrador_resultante (entrada 1000 3 0) = 0"
    by (simp_all add: entrada_def tnaCobrador_resultante_def default0_def)
  have t: "tna (entrada 1000 1 12) = 12" "tna (entrada 1000 3 0) = 0"
    "cuotas (entrada 1000 1 12) = 1" "cuotas (entrada 1000 3 0) = 3"
    by (simp_all add: entrada_def)
  have f: "annuity_factor (1 / 100) (Suc 0) = 101 / 100"
    by (simp add: annuity_factor_def)
  from C2_annuity_coefficient[OF v]
  have "map_sum id coeficiente (calcularFinanciamiento_A1 (entrada 1000 1 12)) = Inr (101 / 100)"
    and "\<exists>a. calcularFinanciamiento_A2 (entrada 1000 1 12) = Inr a
        \<and> nearest_millionth (coeficiente a) (101 / 100)"
    by (auto simp: r t f)
  moreover from C2_annuity_coefficient[OF w]
  have "map_sum id coeficiente (calcularFinanciamiento_A1 (entrada 1000 3 0)) = Inr (1 / 3)"
    and "\<exists>a. calcularFinanciamiento_A2 (entrada 1000 3 0) = Inr a
        \<and> nearest_millionth (coeficiente a) (1 / 3)"
    by (auto simp: r t)
  ultimately show ?thesis using v w by (simp add: r t)
qed

text \<open>
  C2 as stated fails on the revision without fees: for three instalments at rate 0 its
  coefficient is \<open>1 / 3\<close>, which is not \<open>1 / 3\<close> rounded to 6 decimals.
\<close>

theorem C2_unrounded_counterexample:
  "isValid (validarDatosEntrada (entrada 1000 3 0)) \<and>
   map_sum id coeficiente (calcularFinanciamiento_A1 (entrada 1000 3 0)) = Inr (1 / 3) \<and>
   (1 / 3 :: real) \<noteq> round_half_up 6 (1 / 3)"
  by (simp add: isValid_iff entrada_def calcularFinanciamiento_A1_def Let_def
      calcularCoeficiente_A1_def calcularTEM_def round_half_up_def)

text \<open>
  C3. For every valid input of the day-count method and every instalment index \<open>i\<close> from 1
  to the number of instalments, the discount coefficient \<open>calcularCoeficienteCuota r i\<close> of
  the resultant rate \<open>r\<close> is \<open>1 / factor28\<close> for \<open>i = 1\<close> and
  \<open>1 / (factor28 * factor30 ^ (i - 1))\<close> for \<open>i > 1\<close>; the detail list has one record per
  index, in order, carrying that coefficient rounded to 6 decimals. With a single instalment
  the sum of the coefficients is \<open>1 / factor28\<close>: only the first branch, which never reads
  the 30-day factor, contributes.
\<close>

theorem C3_discount_coefficient:
  assumes "isValid (validarDatosEntrada input)"
  defines "r \<equiv> tnaCobrador_resultante input"
  shows "\<exists>b. calcularFinanciamiento_B input = Inr b
    \<and> length (detallesPorCuota b) = nat \<lfloor>cuotas input\<rfloor>
    \<and> (\<forall>i. 1 \<le> i \<and> i \<le> nat \<lfloor>cuotas input\<rfloor> \<longrightarrow>
          calcularCoeficienteCuota r (real i)
            = (if i = 1 then 1 / factor28 r else 1 / (factor28 r * factor30 r ^ (i - 1)))
          \<and> DetalleCuota.numeroCuota (detallesPorCuota b ! (i - 1)) = real i
          \<and> DetalleCuota.coeficiente (detallesPorCuota b ! (i - 1))
              = round_half_up 6 (calcularCoeficienteCuota r (real i)))
    \<and> (cuotas input = 1 \<longrightarrow> sumaCoeficientes_loop r (cuotas input) 1 0 = 1 / factor28 r)"
proof -
  from B_fields[OF assms(1)] obtain b where b: "calcularFinanciamiento_B input = Inr b"
    and d: "detallesPorCuota b = calcularDetallesPorCuota (importe input) (cuotas input) r
              (coeficiente b) (tea b) (cft b) (tasaDirecta b)"
    unfolding r_def by blast
  let ?n = "nat \<lfloor>cuotas input\<rfloor>"
  have len: "length (detallesPorCuota b) = ?n"
    by (simp add: d calcularDetallesPorCuota_def detalles_loop_eq Let_def del: upt_Suc)
  have each: "calcularCoeficienteCuota r (real i)
            = (if i = 1 then 1 / factor28 r else 1 / (factor28 r * factor30 r ^ (i - 1)))
          \<and> DetalleCuota.numeroCuota (detallesPorCuota b ! (i - 1)) = real i
          \<and> DetalleCuota.coeficiente (detallesPorCuota b ! (i - 1))
              = round_half_up 6 (calcularCoeficienteCuota r (real i))"
    if "1 \<le> i \<and> i \<le> ?n" for i
  proof -
    from that have i: "0 < i" "i - 1 < Suc ?n - 1" "1 + (i - 1) = i" by auto
    have "calcularCoeficienteCuota r (real i) = discount r i"
      using i(1) by (rule calcularCoeficienteCuota_discount)
    moreover have "[1..<Suc ?n] ! (i - 1) = i"
      using i by (simp add: nth_upt del: upt_Suc)
    ultimately show ?thesis using i
      by (simp add: d calcularDetallesPorCuota_def detalles_loop_eq Let_def discount_def
          Math_round_6 del: upt_Suc)
  qed
  have one: "sumaCoeficientes_loop r (cuotas input) 1 0 = 1 / factor28 r" if "cuotas input = 1"
    unfolding suma_discount using that by (simp add: discount_def)
  from b len each one show ?thesis by blast
qed

text \<open>C3 at 360 percent and two instalments: the coefficients are 25/32 and 125/208.\<close>

theorem C3_discount_coefficient_witness:
  "isValid (validarDatosEntrada (entrada 10000 2 360)) \<and>
   calcularCoeficienteCuota 360 1 = 25 / 32 \<and> calcularCoeficienteCuota 360 2 = 125 / 208"
proof -
  have v: "isValid (validarDatosEntrada (entrada 10000 2 360))"
    by (simp add: isValid_iff entrada_def)
  from C3_discount_coefficient[OF v] obtain b where
    "\<forall>i. 1 \<le> i \<and> i \<le> nat \<lfloor>cuotas (entrada 10000 2 360)\<rfloor> \<longrightarrow>
       calcularCoeficienteCuota (tnaCobrador_resultante (entrada 10000 2 360)) (real i)
         = (if i = 1 then 1 / factor28 (tnaCobrador_resultante (entrada 10000 2 360))
            else 1 / (factor28 (tnaCobrador_resultante (entrada 10000 2 360))
                      * factor30 (tnaCobrador_resultante (entrada 10000 2 360)) ^ (i - 1)))"
    by blast
  then have "\<forall>i. 1 \<le> i \<and> i \<le> 2 \<longrightarrow> calcularCoeficienteCuota 360 (real i)
         = (if i = 1 then 25 / 32 else 1 / (32 / 25 * (13 / 10) ^ (i - 1)))"
    by (simp add: entrada_def tnaCobrador_resultante_def default0_def factor28_def factor30_def)
  from this[rule_format, of 1] this[rule_format, of 2] have
    "calcularCoeficienteCuota 360 1 = 25 / 32" "calcularCoeficienteCuota 360 2 = 125 / 208"
    by simp_all
  with v show ?thesis by simp
qed

text \<open>
  C5 (as amended). In the uniform-rate revision with fees the monthly rate, and with it the
  coefficient, is derived from the resultant rate: the nominal rate plus the four fees, an
  absent fee counting 0. The revision without fees derives it from the nominal rate alone
  and never reads the fee fields: changing them does not change its result.
\<close>

theorem C5_resultant_rate:
  assumes "isValid (validarDatosEntrada input)"
  shows "(\<exists>a. calcularFinanciamiento_A2 input = Inr a
            \<and> coeficiente a = calcularCoeficiente_A2
                 (((tna input + default0 (arancelProcesador input)
                     + default0 (feeRiesgoProcesador input)
                     + default0 (adicionalCobrador input)
                     + default0 (impuestos input)) / 100) / 12) (cuotas input))
    \<and> (\<exists>a. calcularFinanciamiento_A1 input = Inr a
            \<and> coeficiente a = calcularCoeficiente_A1 ((tna input / 100) / 12) (cuotas input))
    \<and> calcularFinanciamiento_A1
          (input\<lparr>arancelProcesador := fa, feeRiesgoProcesador := fb,
                 adicionalCobrador := fc, impuestos := fd\<rparr>)
        = calcularFinanciamiento_A1 input"
proof -
  from A2_fields[OF assms] have "\<exists>a. calcularFinanciamiento_A2 input = Inr a
            \<and> coeficiente a = calcularCoeficiente_A2
                 (((tna input + default0 (arancelProcesador input)
                     + default0 (feeRiesgoProcesador input)
                     + default0 (adicionalCobrador input)
                     + default0 (impuestos input)) / 100) / 12) (cuotas input)"
    by (auto simp: calcularTEM_def tnaCobrador_resultante_def)
  moreover from A1_fields[OF assms] have "\<exists>a. calcularFinanciamiento_A1 input = Inr a
            \<and> coeficiente a = calcularCoeficiente_A1 ((tna input / 100) / 12) (cuotas input)"
    by (auto simp: calcularTEM_def)
  moreover have "calcularFinanciamiento_A1
          (input\<lparr>arancelProcesador := fa, feeRiesgoProcesador := fb,
                 adicionalCobrador := fc, impuestos := fd\<rparr>)
        = calcularFinanciamiento_A1 input"
    by (simp add: calcularFinanciamiento_A1_def validarDatosEntrada_def)
  ultimately show ?thesis by blast
qed

text \<open>
  C5 at a concrete input with a processor tariff of 12 and nominal rate 0: the revision with
  fees gives the coefficient 1.01 of the resultant rate 12, and the revision without fees
  gives the same result as for the input without the tariff.
\<close>

theorem C5_resultant_rate_witness:
  "isValid (validarDatosEntrada ((entrada 1000 1 0)\<lparr>arancelProcesador := Some 12\<rparr>)) \<and>
   map_sum id coeficiente
     (calcularFinanciamiento_A2 ((entrada 1000 1 0)\<lparr>arancelProcesador := Some 12\<rparr>))
     = Inr (101 / 100) \<and>
   calcularFinanciamiento_A1 ((entrada 1000 1 0)\<lparr>arancelProcesador := Some 12\<rparr>)
     = calcularFinanciamiento_A1 (entrada 1000 1 0)"
proof -
  have v: "isValid (validarDatosEntrada ((entrada 1000 1 0)\<lparr>arancelProcesador := Some 12\<rparr>))"
    and w: "isValid (validarDatosEntrada (entrada 1000 1 0))"
    by (simp_all add: isValid_iff entrada_def)
  from C5_resultant_rate[OF v, where fa = None and fb = None and fc = None and fd = None]
  have "map_sum id coeficiente
     (calcularFinanciamiento_A2 ((entrada 1000 1 0)\<lparr>arancelProcesador := Some 12\<rparr>))
     = Inr (101 / 100)"
    by (auto simp: entrada_def default0_def calcularCoeficiente_A2_def round_half_up_def
        Math_round_def)
  moreover from C5_resultant_rate[OF w, where fa = "Some 12" and fb = None and fc = None and fd = None]
  have "calcularFinanciamiento_A1 ((entrada 1000 1 0)\<lparr>arancelProcesador := Some 12\<rparr>)
     = calcularFinanciamiento_A1 (entrada 1000 1 0)"
    by (simp add: entrada_def)
  ultimately show ?thesis using v by simp
qed

text \<open>
  C5 as stated fails on the revision without fees: with a processor tariff of 12 on top of a
  nominal rate 0 its coefficient is 1, the one of rate 0, and not 1.01, the one of the
  resultant rate 12.
\<close>

theorem C5_fee_ignored_counterexample:
  "isValid (validarDatosEntrada ((entrada 1000 1 0)\<lparr>arancelProcesador := Some 12\<rparr>)) \<and>
   tnaCobrador_resultante ((entrada 1000 1 0)\<lparr>arancelProcesador := Some 12\<rparr>) = 12 \<and>
   map_sum id coeficiente
     (calcularFinanciamiento_A1 ((entrada 1000 1 0)\<lparr>arancelProcesador := Some 12\<rparr>)) = Inr 1 \<and>
   calcularCoeficiente_A1 (calcularTEM 12) 1 = 101 / 100"
  by (simp add: isValid_iff entrada_def calcularFinanciamiento_A1_def Let_def
      tnaCobrador_resultante_def default0_def calcularCoeficiente_A1_def calcularTEM_def)

text \<open>
  C6. The effective annual rate of the day-count method: with \<open>financialCost = amount *
  (1 - (1 / installmentCount) * (sum of the discount coefficients of the instalments))\<close>,
  \<open>totalPayable = amount + financialCost\<close>, \<open>totalDays = 28 + 30 * (installmentCount - 1)\<close>
  and \<open>years = totalDays / 360\<close>, \<open>calcularTEA\<close> returns
  \<open>((totalPayable / amount) ^ (1 / years) - 1) * 100\<close> when \<open>years > 0\<close> and \<open>amount > 0\<close>,
  and the total financial cost percentage \<open>(financialCost / amount) * 100\<close> otherwise; for
  every valid input the orchestrator stores its value at the amount, the number of
  instalments and the resultant rate of the input.
\<close>

theorem C6_effective_annual_rate:
  fixes amount installmentCount rate :: real
  defines "financialCost \<equiv> amount * (1 - (1 / installmentCount)
              * (\<Sum>i = 1..nat \<lfloor>installmentCount\<rfloor>. discount rate i))"
  defines "totalPayable \<equiv> amount + financialCost"
  defines "totalDays \<equiv> 28 + 30 * (installmentCount - 1)"
  defines "years \<equiv> totalDays / 360"
  shows "calcularTEA_B amount installmentCount rate =
           (if years > 0 \<and> amount > 0
            then (Math_pow (totalPayable / amount) (1 / years) - 1) * 100
            else (financialCost / amount) * 100)
    \<and> (isValid (validarDatosEntrada input) \<longrightarrow>
          (\<exists>b. calcularFinanciamiento_B input = Inr b
             \<and> tea b = calcularTEA_B (importe input) (cuotas input)
                          (tnaCobrador_resultante input)))"
proof -
  have "calcularTEA_B amount installmentCount rate =
           (if years > 0 \<and> amount > 0
            then (Math_pow (totalPayable / amount) (1 / years) - 1) * 100
            else (financialCost / amount) * 100)"
    unfolding calcularTEA_B_eq calcularCostoFinanciero_eq years_def totalDays_def
      totalPayable_def financialCost_def
    by (rule refl)
  moreover have "\<exists>b. calcularFinanciamiento_B input = Inr b
             \<and> tea b = calcularTEA_B (importe input) (cuotas input)
                          (tnaCobrador_resultante input)"
    if "isValid (validarDatosEntrada input)"
    using B_fields[OF that] by blast
  ultimately show ?thesis by blast
qed

text \<open>
  C6 at concrete arguments: the compound branch for 10000 over one instalment at 360 percent
  (the base is 39/32, the exponent 360/28), and the fallback branch for a negative amount.
\<close>

theorem C6_effective_annual_rate_witness:
  "calcularTEA_B 10000 1 360 = (Math_pow (39 / 32) (90 / 7) - 1) * 100 \<and>
   calcularTEA_B (- 100) 1 360 = 175 / 8 \<and>
   isValid (validarDatosEntrada (entrada 10000 1 360)) \<and>
   map_sum id tea (calcularFinanciamiento_B (entrada 10000 1 360))
     = Inr (calcularTEA_B 10000 1 360)"
proof -
  have v: "isValid (validarDatosEntrada (entrada 10000 1 360))"
    by (simp add: isValid_iff entrada_def)
  have s: "discount 360 (Suc 0) = 25 / 32"
    by (simp add: discount_def factor28_def)
  from C6_effective_annual_rate[where amount = 10000 and installmentCount = 1 and rate = 360
      and input = "entrada 10000 1 360"] v
  have "calcularTEA_B 10000 1 360 = (Math_pow (39 / 32) (90 / 7) - 1) * 100"
    and "map_sum id tea (calcularFinanciamiento_B (entrada 10000 1 360))
           = Inr (calcularTEA_B 10000 1 360)"
    by (auto simp: s entrada_def tnaCobrador_resultante_def default0_def)
  moreover from C6_effective_annual_rate[where amount = "- 100" and installmentCount = 1
      and rate = 360]
  have "calcularTEA_B (- 100) 1 360 = 175 / 8"
    by (simp add: s)
  ultimately show ?thesis using v by simp
qed

text \<open>
  C7 (as amended). The tax multiplier is \<open>1 + IVA\<close> with the named constant \<open>IVA = 0.21\<close>,
  that is 1.21. In the revision headed "Fiserv" the tax-adjusted coefficient is the
  coefficient times 1.21, not rounded. In the two revisions headed "Procesador" the
  tax-adjusted coefficient of the result is the (rounded) coefficient of the result times
  1.21, rounded to 6 decimals, the direction at a tie left open. In the detail record of
  instalment \<open>i\<close> of the day-count revision the tax-adjusted coefficient is derived from
  the unrounded discount coefficient of the instalment, not from the rounded one stored
  beside it: it is that coefficient times 1.21, rounded to 6 decimals.
\<close>

theorem C7_tax_adjusted_coefficient:
  assumes "isValid (validarDatosEntrada input)"
  defines "r \<equiv> tnaCobrador_resultante input"
  shows "(\<exists>a. calcularFinanciamiento_A1 input = Inr a
            \<and> coeficienteConIVA a = coeficiente a * (1 + IVA))
    \<and> (\<exists>a. calcularFinanciamiento_A2 input = Inr a
            \<and> nearest_millionth (coeficienteConIVA a) (coeficiente a * (1 + IVA)))
    \<and> (\<exists>b. calcularFinanciamiento_B input = Inr b
            \<and> nearest_millionth (coeficienteConIVA b) (coeficiente b * (1 + IVA))
            \<and> (\<forall>i. 1 \<le> i \<and> i \<le> nat \<lfloor>cuotas input\<rfloor> \<longrightarrow>
                  nearest_millionth
                    (DetalleCuota.coeficienteConIVA (detallesPorCuota b ! (i - 1)))
                    (calcularCoeficienteCuota r (real i) * (1 + IVA))))
    \<and> 1 + IVA = 121 / 100"
proof -
  from A1_fields[OF assms(1)] have first: "\<exists>a. calcularFinanciamiento_A1 input = Inr a
            \<and> coeficienteConIVA a = coeficiente a * (1 + IVA)"
    by (auto simp: calcularCoeficienteConIVA_A1_def)
  from A2_fields[OF assms(1)] have second: "\<exists>a. calcularFinanciamiento_A2 input = Inr a
            \<and> nearest_millionth (coeficienteConIVA a) (coeficiente a * (1 + IVA))"
    by (auto simp: calcularCoeficienteConIVA_eq nearest_millionth_round)
  from B_fields[OF assms(1)] obtain b where b: "calcularFinanciamiento_B input = Inr b"
    and c: "coeficienteConIVA b = calcularCoeficienteConIVA (coeficiente b)"
    and d: "detallesPorCuota b = calcularDetallesPorCuota (importe input) (cuotas input) r
              (coeficiente b) (tea b) (cft b) (tasaDirecta b)"
    unfolding r_def by blast
  let ?n = "nat \<lfloor>cuotas input\<rfloor>"
  have agg: "nearest_millionth (coeficienteConIVA b) (coeficiente b * (1 + IVA))"
    unfolding c calcularCoeficienteConIVA_eq by (rule nearest_millionth_round)
  have each: "nearest_millionth
                (DetalleCuota.coeficienteConIVA (detallesPorCuota b ! (i - 1)))
                (calcularCoeficienteCuota r (real i) * (1 + IVA))"
    if "1 \<le> i \<and> i \<le> ?n" for i
  proof -
    from that have i: "0 < i" "i - 1 < Suc ?n - 1" "1 + (i - 1) = i" by auto
    have "[1..<Suc ?n] ! (i - 1) = i"
      using i by (simp add: nth_upt del: upt_Suc)
    with i have "DetalleCuota.coeficienteConIVA (detallesPorCuota b ! (i - 1))
        = round_half_up 6 (round_half_up 6 (calcularCoeficienteCuota r (real i) * (1 + IVA)))"
      by (simp add: d calcularDetallesPorCuota_def detalles_loop_eq Let_def Math_round_6
          calcularCoeficienteConIVA_eq del: upt_Suc)
    then show ?thesis
      unfolding round_half_up_idem by (simp only: nearest_millionth_round)
  qed
  have "1 + IVA = 121 / 100" by (simp add: IVA_def)
  with first second b agg each show ?thesis by blast
qed

text \<open>
  C7 for three instalments at rate 0 (coefficient \<open>1 / 3\<close> unrounded, 0.333333 rounded) and
  for the detail record of one instalment at 4 percent (discount coefficient \<open>2250 / 2257\<close>).
\<close>

theorem C7_tax_adjusted_coefficient_witness:
  "isValid (validarDatosEntrada (entrada 1000 3 0)) \<and>
   isValid (validarDatosEntrada (entrada 1000 1 4)) \<and>
   map_sum id coeficienteConIVA (calcularFinanciamiento_A1 (entrada 1000 3 0))
     = Inr (121 / 300) \<and>
   (\<exists>a. calcularFinanciamiento_A2 (entrada 1000 3 0) = Inr a
        \<and> nearest_millionth (coeficienteConIVA a) (333333 / 1000000 * (121 / 100))) \<and>
   (\<exists>b. calcularFinanciamiento_B (entrada 1000 3 0) = Inr b
        \<and> nearest_millionth (coeficienteConIVA b) (333333 / 1000000 * (121 / 100))) \<and>
   (\<exists>b. calcularFinanciamiento_B (entrada 1000 1 4) = Inr b
        \<and> nearest_millionth (DetalleCuota.coeficienteConIVA (detallesPorCuota b ! 0))
             (2250 / 2257 * (121 / 100)))"
proof -
  have v: "isValid (validarDatosEntrada (entrada 1000 3 0))"
    and w: "isValid (validarDatosEntrada (entrada 1000 1 4))"
    by (simp_all add: isValid_iff entrada_def)
  have c: "calcularCoeficiente_A1 (calcularTEM (tna (entrada 1000 3 0))) (cuotas (entrada 1000 3 0)) = 1 / 3"
    "calcularCoeficiente_A2 (calcularTEM (tnaCobrador_resultante (entrada 1000 3 0))) (cuotas (entrada 1000 3 0)) = 333333 / 1000000"
    "calcularCoeficiente_B (tnaCobrador_resultante (entrada 1000 3 0)) (cuotas (entrada 1000 3 0)) = 333333 / 1000000"
    by (simp_all add: entrada_def calcularTEM_def tnaCobrador_resultante_def default0_def
        calcularCoeficiente_A1_def calcularCoeficiente_A2_def calcularCoeficiente_B_def
        Math_round_def)
  have k: "calcularCoeficienteCuota (tnaCobrador_resultante (entrada 1000 1 4)) (real 1)
             = 2250 / 2257"
    "nat \<lfloor>cuotas (entrada 1000 1 4)\<rfloor> = 1"
    by (simp_all add: entrada_def tnaCobrador_resultante_def default0_def
        calcularCoeficienteCuota_def Let_def)
  from C7_tax_adjusted_coefficient[OF v] obtain a1 a2 b where
    a1: "calcularFinanciamiento_A1 (entrada 1000 3 0) = Inr a1"
        "coeficienteConIVA a1 = coeficiente a1 * (1 + IVA)" and
    a2: "calcularFinanciamiento_A2 (entrada 1000 3 0) = Inr a2"
        "nearest_millionth (coeficienteConIVA a2) (coeficiente a2 * (1 + IVA))" and
    b: "calcularFinanciamiento_B (entrada 1000 3 0) = Inr b"
        "nearest_millionth (coeficienteConIVA b) (coeficiente b * (1 + IVA))"
    by blast
  from C7_tax_adjusted_coefficient[OF w] obtain b' where
    b': "calcularFinanciamiento_B (entrada 1000 1 4) = Inr b'"
        "\<forall>i. 1 \<le> i \<and> i \<le> nat \<lfloor>cuotas (entrada 1000 1 4)\<rfloor> \<longrightarrow>
           nearest_millionth
             (DetalleCuota.coeficienteConIVA (detallesPorCuota b' ! (i - 1)))
             (calcularCoeficienteCuota (tnaCobrador_resultante (entrada 1000 1 4)) (real i)
                * (1 + IVA))"
    by blast
  from A1_fields[OF v] a1(1) have "coeficiente a1 = 1 / 3" by (simp add: c)
  with a1 have "map_sum id coeficienteConIVA (calcularFinanciamiento_A1 (entrada 1000 3 0))
     = Inr (121 / 300)"
    by (simp add: IVA_def)
  moreover from A2_fields[OF v] a2(1) have "coeficiente a2 = 333333 / 1000000" by (simp add: c)
  with a2 have "\<exists>a. calcularFinanciamiento_A2 (entrada 1000 3 0) = Inr a
        \<and> nearest_millionth (coeficienteConIVA a) (333333 / 1000000 * (121 / 100))"
    by (simp add: IVA_def)
  moreover from B_fields[OF v] b(1) have "coeficiente b = 333333 / 1000000" by (simp add: c)
  with b have "\<exists>b. calcularFinanciamiento_B (entrada 1000 3 0) = Inr b
        \<and> nearest_millionth (coeficienteConIVA b) (333333 / 1000000 * (121 / 100))"
    by (simp add: IVA_def)
  moreover from b'(2)[rule_format, of 1] have "nearest_millionth
       (DetalleCuota.coeficienteConIVA (detallesPorCuota b' ! 0)) (2250 / 2257 * (121 / 100))"
    unfolding k by (simp add: IVA_def)
  with b'(1) have "\<exists>b. calcularFinanciamiento_B (entrada 1000 1 4) = Inr b
        \<and> nearest_millionth (DetalleCuota.coeficienteConIVA (detallesPorCuota b ! 0))
             (2250 / 2257 * (121 / 100))"
    by blast
  ultimately show ?thesis using v w by simp
qed

text \<open>
  C7 as stated fails in two places. In the revision headed "Fiserv", for three instalments
  at rate 0 the coefficient is \<open>1 / 3\<close> and the tax-adjusted coefficient \<open>121 / 300\<close>, which
  is not \<open>1 / 3 * 1.21\<close> rounded to 6 decimals. In the day-count revision, for one instalment
  at 4 percent the detail record stores the coefficient 0.996899 and the tax-adjusted
  coefficient 1.206247, while 0.996899 times 1.21 rounded to 6 decimals is 1.206248.
\<close>

theorem C7_unrounded_counterexample:
  "isValid (validarDatosEntrada (entrada 1000 3 0)) \<and>
   map_sum id coeficiente (calcularFinanciamiento_A1 (entrada 1000 3 0)) = Inr (1 / 3) \<and>
   map_sum id coeficienteConIVA (calcularFinanciamiento_A1 (entrada 1000 3 0))
     = Inr (121 / 300) \<and>
   (121 / 300 :: real) \<noteq> round_half_up 6 ((1 / 3) * (121 / 100)) \<and>
   isValid (validarDatosEntrada (entrada 1000 1 4)) \<and>
   map_sum id (map DetalleCuota.coeficiente \<circ> detallesPorCuota)
     (calcularFinanciamiento_B (entrada 1000 1 4)) = Inr [996899 / 1000000] \<and>
   map_sum id (map DetalleCuota.coeficienteConIVA \<circ> detallesPorCuota)
     (calcularFinanciamiento_B (entrada 1000 1 4)) = Inr [1206247 / 1000000] \<and>
   round_half_up 6 (996899 / 1000000 * (121 / 100)) \<noteq> 1206247 / 1000000"
proof -
  have v: "isValid (validarDatosEntrada (entrada 1000 1 4))"
    by (simp add: isValid_iff entrada_def)
  have k: "calcularCoeficienteCuota 4 1 = 2250 / 2257"
    by (simp add: calcularCoeficienteCuota_def Let_def)
  have l: "detalles_loop imp 1 4 cu te cf td (Suc 0) []
     = [\<lparr>numeroCuota = 1, importe = imp, tnaResultante = 4, cuota = cu,
          coeficiente = 996899 / 1000000, coeficienteConIVA = 1206247 / 1000000,
          tea = te, cft = cf, tasaDirecta = td\<rparr>]" for imp cu te cf td
    by (simp add: detalles_loop_eq k calcularCoeficienteConIVA_def IVA_def Math_round_def
        Let_def)
  from B_fields[OF v] obtain b where b: "calcularFinanciamiento_B (entrada 1000 1 4) = Inr b"
    and d: "detallesPorCuota b = calcularDetallesPorCuota (importe (entrada 1000 1 4))
          (cuotas (entrada 1000 1 4)) (tnaCobrador_resultante (entrada 1000 1 4))
          (coeficiente b) (tea b) (cft b) (tasaDirecta b)"
    by blast
  have "map DetalleCuota.coeficiente (detallesPorCuota b) = [996899 / 1000000]"
    "map DetalleCuota.coeficienteConIVA (detallesPorCuota b) = [1206247 / 1000000]"
    unfolding d
    by (simp_all add: calcularDetallesPorCuota_def Let_def entrada_def
        tnaCobrador_resultante_def default0_def l)
  with b have "map_sum id (map DetalleCuota.coeficiente \<circ> detallesPorCuota)
     (calcularFinanciamiento_B (entrada 1000 1 4)) = Inr [996899 / 1000000]"
    "map_sum id (map DetalleCuota.coeficienteConIVA \<circ> detallesPorCuota)
     (calcularFinanciamiento_B (entrada 1000 1 4)) = Inr [1206247 / 1000000]"
    by simp_all
  moreover have "isValid (validarDatosEntrada (entrada 1000 3 0)) \<and>
   map_sum id coeficiente (calcularFinanciamiento_A1 (entrada 1000 3 0)) = Inr (1 / 3) \<and>
   map_sum id coeficienteConIVA (calcularFinanciamiento_A1 (entrada 1000 3 0))
     = Inr (121 / 300) \<and>
   (121 / 300 :: real) \<noteq> round_half_up 6 ((1 / 3) * (121 / 100))"
    by (simp add: isValid_iff entrada_def calcularFinanciamiento_A1_def Let_def
      calcularCoeficiente_A1_def calcularCoeficienteConIVA_A1_def IVA_def calcularTEM_def
      round_half_up_def)
  moreover have "round_half_up 6 (996899 / 1000000 * (121 / 100)) \<noteq> (1206247 / 1000000 :: real)"
    by (simp add: round_half_up_def)
  ultimately show ?thesis using v by simp
qed

text \<open>
  C9 (as amended). Take two valid inputs that agree on the amount, the number of instalments
  and all fees, the second with the larger nominal rate. In the day-count revision the
  second input's coefficient, direct rate, effective annual rate and total financial cost
  are each at least the first's, when the resultant rate of the first input is not negative.
  In the uniform-rate revisions the effective annual rate of the second input is at least
  the first's: always in the revision without fees, and when the resultant rate of the first
  input is at least -1200 (a monthly rate of at least -1) in the revision with fees. Nothing
  is said about the coefficient, the direct rate and the total financial cost of the
  uniform-rate revisions.
\<close>

theorem C9_monotone_in_nominal_rate:
  assumes vx: "isValid (validarDatosEntrada x)" and vy: "isValid (validarDatosEntrada y)"
    and same: "importe x = importe y" "cuotas x = cuotas y"
      "arancelProcesador x = arancelProcesador y"
      "feeRiesgoProcesador x = feeRiesgoProcesador y"
      "adicionalCobrador x = adicionalCobrador y" "impuestos x = impuestos y"
    and less: "tna x < tna y"
  shows "(0 \<le> tnaCobrador_resultante x \<longrightarrow>
          (\<exists>b b'. calcularFinanciamiento_B x = Inr b \<and> calcularFinanciamiento_B y = Inr b'
             \<and> no_decrease b b'))
    \<and> (\<exists>a a'. calcularFinanciamiento_A1 x = Inr a \<and> calcularFinanciamiento_A1 y = Inr a'
            \<and> tea a \<le> tea a')
    \<and> (- 1200 \<le> tnaCobrador_resultante x \<longrightarrow>
          (\<exists>a a'. calcularFinanciamiento_A2 x = Inr a \<and> calcularFinanciamiento_A2 y = Inr a'
             \<and> tea a \<le> tea a'))"
proof -
  have c0: "0 \<le> cuotas x" using vx by (simp add: isValid_iff)
  have r: "tnaCobrador_resultante x \<le> tnaCobrador_resultante y"
    using less same by (simp add: tnaCobrador_resultante_def)
  have first: "\<exists>b b'. calcularFinanciamiento_B x = Inr b \<and> calcularFinanciamiento_B y = Inr b'
             \<and> no_decrease b b'"
    if r0: "0 \<le> tnaCobrador_resultante x"
  proof -
    from B_fields[OF vx] obtain b where b: "calcularFinanciamiento_B x = Inr b"
      "coeficiente b = calcularCoeficiente_B (tnaCobrador_resultante x) (cuotas x)"
      "tasaDirecta b = calcularTasaDirecta (coeficiente b) (cuotas x)"
      "tea b = calcularTEA_B (importe x) (cuotas x) (tnaCobrador_resultante x)"
      "cft b = calcularCFT_B (importe x) (cuotas x) (tnaCobrador_resultante x)"
      by blast
    from B_fields[OF vy] obtain b' where b': "calcularFinanciamiento_B y = Inr b'"
      "coeficiente b' = calcularCoeficiente_B (tnaCobrador_resultante y) (cuotas x)"
      "tasaDirecta b' = calcularTasaDirecta (coeficiente b') (cuotas x)"
      "tea b' = calcularTEA_B (importe x) (cuotas x) (tnaCobrador_resultante y)"
      "cft b' = calcularCFT_B (importe x) (cuotas x) (tnaCobrador_resultante y)"
      unfolding same(1,2)[symmetric] by blast
    have d: "coeficiente b \<le> coeficiente b'"
      unfolding b b' by (rule calcularCoeficiente_B_mono[OF vx r0 r])
    have "no_decrease b b'"
      unfolding no_decrease_def
      using d calcularTasaDirecta_mono[OF d c0] calcularTEA_B_mono[OF vx r0 r]
        calcularCFT_B_mono[OF vx r0 r]
      by (simp add: b b')
    with b(1) b'(1) show ?thesis by blast
  qed
  have second: "\<exists>a a'. calcularFinanciamiento_A1 x = Inr a \<and> calcularFinanciamiento_A1 y = Inr a'
            \<and> tea a \<le> tea a'"
  proof -
    have t0: "- 1 \<le> calcularTEM (tna x)" "calcularTEM (tna x) \<le> calcularTEM (tna y)"
      using vx less by (simp_all add: isValid_iff calcularTEM_def)
    from A1_fields[OF vx] obtain a where a: "calcularFinanciamiento_A1 x = Inr a"
      "tea a = calcularTEA_A (calcularTEM (tna x))"
      by blast
    from A1_fields[OF vy] obtain a' where a': "calcularFinanciamiento_A1 y = Inr a'"
      "tea a' = calcularTEA_A (calcularTEM (tna y))"
      by blast
    have "tea a \<le> tea a'" unfolding a a' by (rule calcularTEA_A_mono[OF t0])
    with a(1) a'(1) show ?thesis by blast
  qed
  have third: "\<exists>a a'. calcularFinanciamiento_A2 x = Inr a \<and> calcularFinanciamiento_A2 y = Inr a'
             \<and> tea a \<le> tea a'"
    if r0: "- 1200 \<le> tnaCobrador_resultante x"
  proof -
    have m0: "- 1 \<le> calcularTEM (tnaCobrador_resultante x)"
      "calcularTEM (tnaCobrador_resultante x) \<le> calcularTEM (tnaCobrador_resultante y)"
      using r0 r by (simp_all add: calcularTEM_def)
    from A2_fields[OF vx] obtain a where a: "calcularFinanciamiento_A2 x = Inr a"
      "tea a = calcularTEA_A (calcularTEM (tnaCobrador_resultante x))"
      by blast
    from A2_fields[OF vy] obtain a' where a': "calcularFinanciamiento_A2 y = Inr a'"
      "tea a' = calcularTEA_A (calcularTEM (tnaCobrador_resultante y))"
      by blast
    have "tea a \<le> tea a'" unfolding a a' by (rule calcularTEA_A_mono[OF m0])
    with a(1) a'(1) show ?thesis by blast
  qed
  from first second third show ?thesis by blast
qed

text \<open>C9 at the rates 0 and 360 percent for one instalment of 1000, without fees.\<close>

theorem C9_monotone_in_nominal_rate_witness:
  "isValid (validarDatosEntrada (entrada 1000 1 0)) \<and>
   isValid (validarDatosEntrada (entrada 1000 1 360)) \<and>
   tna (entrada 1000 1 0) < tna (entrada 1000 1 360) \<and>
   0 \<le> tnaCobrador_resultante (entrada 1000 1 0) \<and>
   - 1200 \<le> tnaCobrador_resultante (entrada 1000 1 0) \<and>
   (\<exists>b b'. calcularFinanciamiento_B (entrada 1000 1 0) = Inr b
      \<and> calcularFinanciamiento_B (entrada 1000 1 360) = Inr b'
      \<and> coeficiente b \<le> coeficiente b' \<and> tasaDirecta b \<le> tasaDirecta b'
      \<and> tea b \<le> tea b' \<and> cft b \<le> cft b') \<and>
   (\<exists>a a'. calcularFinanciamiento_A1 (entrada 1000 1 0) = Inr a
      \<and> calcularFinanciamiento_A1 (entrada 1000 1 360) = Inr a' \<and> tea a \<le> tea a') \<and>
   (\<exists>a a'. calcularFinanciamiento_A2 (entrada 1000 1 0) = Inr a
      \<and> calcularFinanciamiento_A2 (entrada 1000 1 360) = Inr a' \<and> tea a \<le> tea a')"
proof -
  have v: "isValid (validarDatosEntrada (entrada 1000 1 0))"
    and w: "isValid (validarDatosEntrada (entrada 1000 1 360))"
    by (simp_all add: isValid_iff entrada_def)
  have r: "0 \<le> tnaCobrador_resultante (entrada 1000 1 0)"
    by (simp add: tnaCobrador_resultante_def entrada_def default0_def)
  have l: "tna (entrada 1000 1 0) < tna (entrada 1000 1 360)" by (simp add: entrada_def)
  from C9_monotone_in_nominal_rate[OF v w _ _ _ _ _ _ l] r
  have "(\<exists>b b'. calcularFinanciamiento_B (entrada 1000 1 0) = Inr b
      \<and> calcularFinanciamiento_B (entrada 1000 1 360) = Inr b' \<and> no_decrease b b')"
    and "(\<exists>a a'. calcularFinanciamiento_A1 (entrada 1000 1 0) = Inr a
      \<and> calcularFinanciamiento_A1 (entrada 1000 1 360) = Inr a' \<and> tea a \<le> tea a')"
    and "(\<exists>a a'. calcularFinanciamiento_A2 (entrada 1000 1 0) = Inr a
      \<and> calcularFinanciamiento_A2 (entrada 1000 1 360) = Inr a' \<and> tea a \<le> tea a')"
    by (simp_all add: entrada_def)
  with v w r l show ?thesis unfolding no_decrease_def by simp
qed

text \<open>
  C9 as stated fails when a negative fee makes the resultant rate negative. In the day-count
  revision, with the tax field at -5 and two instalments, raising the nominal rate from 4 to
  5 lowers the coefficient from 0.998806 (resultant rate -1, general formula) to 0.5
  (resultant rate 0, the special case \<open>1 / cuotas\<close>). In the uniform-rate revision with
  fees, with the tax field at -3600, raising the nominal rate from 0 to 600 lowers the
  effective annual rate from 409500 (monthly rate -3, \<open>(- 2) ^ 12 = 4096\<close>) to about 12874.63
  (monthly rate -2.5, \<open>(- 1.5) ^ 12 = 531441 / 4096\<close>).
\<close>

theorem C9_negative_fee_counterexample:
  "isValid (validarDatosEntrada ((entrada 1000 2 4)\<lparr>impuestos := Some (- 5)\<rparr>)) \<and>
   isValid (validarDatosEntrada ((entrada 1000 2 5)\<lparr>impuestos := Some (- 5)\<rparr>)) \<and>
   map_sum id coeficiente
     (calcularFinanciamiento_B ((entrada 1000 2 4)\<lparr>impuestos := Some (- 5)\<rparr>))
     = Inr (998806 / 1000000) \<and>
   map_sum id coeficiente
     (calcularFinanciamiento_B ((entrada 1000 2 5)\<lparr>impuestos := Some (- 5)\<rparr>))
     = Inr (500000 / 1000000) \<and>
   (500000 / 1000000 :: real) < 998806 / 1000000 \<and>
   isValid (validarDatosEntrada ((entrada 1000 2 0)\<lparr>impuestos := Some (- 3600)\<rparr>)) \<and>
   isValid (validarDatosEntrada ((entrada 1000 2 600)\<lparr>impuestos := Some (- 3600)\<rparr>)) \<and>
   map_sum id tea
     (calcularFinanciamiento_A2 ((entrada 1000 2 0)\<lparr>impuestos := Some (- 3600)\<rparr>))
     = Inr 409500 \<and>
   map_sum id tea
     (calcularFinanciamiento_A2 ((entrada 1000 2 600)\<lparr>impuestos := Some (- 3600)\<rparr>))
     = Inr (13183625 / 1024) \<and>
   (13183625 / 1024 :: real) < 409500"
proof -
  have s: "sum (discount (- 1)) {Suc 0..2} = 9000 / 8993 + 10800000 / 10782607"
    by (simp add: sum.atLeast_Suc_atMost discount_def factor28_def factor30_def numeral_2_eq_2)
  have "calcularCoeficiente_B (- 1) 2 = 998806 / 1000000"
    by (simp add: calcularCoeficiente_B_eq s round_half_up_def)
  moreover have "calcularCoeficiente_B 0 2 = 500000 / 1000000"
    by (simp add: calcularCoeficiente_B_eq round_half_up_def)
  moreover have "calcularTEA_A (calcularTEM (- 3600)) = 409500"
    "calcularTEA_A (calcularTEM (- 3000)) = 13183625 / 1024"
    by (simp_all add: calcularTEA_A_def calcularTEM_def power_divide)
  ultimately show ?thesis
    by (simp add: isValid_iff entrada_def calcularFinanciamiento_B_def
        calcularFinanciamiento_A2_def Let_def tnaCobrador_resultante_def default0_def)
qed

text \<open>
  C10 (as amended). For every input that passes validation and whose amount is not NaN the
  condition of the day-count \<open>calcularTEA\<close> holds, so the fallback that returns the total
  financial cost is not taken. For an input of finite numbers that passes validation,
  \<open>years = (28 + 30 * (cuotas - 1)) / 360\<close> is at least \<open>28 / 360\<close> and the amount is
  positive; when moreover the resultant rate is not negative, the stored rate is the
  compound formula with the real power (the exponent \<open>1 / years\<close> is never an integer).
\<close>

theorem C10_guard_always_holds:
  fixes x :: CalculoFinancieroInputJS and input :: CalculoFinancieroInput
  defines "years \<equiv> (28 + 30 * (cuotas input - 1)) / 360"
  defines "totalPayable \<equiv> importe input + calcularCostoFinanciero (importe input)
              (cuotas input) (tnaCobrador_resultante input)"
  shows "(isValid (validarDatosEntradaJS x) \<and> importeJS x \<noteq> NaN
            \<longrightarrow> calcularTEA_condicion (importeJS x) (cuotasJS x))
    \<and> (isValid (validarDatosEntrada input)
          \<longrightarrow> isValid (validarDatosEntradaJS (enJS input))
            \<and> calcularTEA_condicion (Num (importe input)) (Num (cuotas input))
            \<and> 28 / 360 \<le> years \<and> 0 < importe input
            \<and> (\<exists>b. calcularFinanciamiento_B input = Inr b
                 \<and> (0 \<le> tnaCobrador_resultante input
                      \<longrightarrow> tea b = ((totalPayable / importe input) powr (1 / years) - 1) * 100)))"
proof -
  have first: "calcularTEA_condicion (importeJS x) (cuotasJS x)"
    if v: "isValid (validarDatosEntradaJS x)" and n: "importeJS x \<noteq> NaN"
  proof -
    from v have i: "\<not> js_le (importeJS x) (Num 0)" and c: "\<not> js_le (cuotasJS x) (Num 0)"
      and z: "Number_isIntegerJS (cuotasJS x)"
      by (simp_all add: isValidJS_iff)
    from z obtain k where k: "cuotasJS x = Num k" and kz: "Number_isInteger k"
      by (cases "cuotasJS x") (simp_all add: Number_isIntegerJS_def)
    from c k have "0 < k" by simp
    moreover from kz have "k \<in> \<int>" by (simp add: Number_isInteger_iff)
    ultimately have "1 \<le> k" by (auto elim!: Ints_cases)
    then have y: "js_gt (aniosJS (cuotasJS x)) (Num 0)"
      by (simp add: k aniosJS_def js_gt_def)
    from i n have "js_gt (importeJS x) (Num 0)"
      by (cases "importeJS x") (simp_all add: js_gt_def)
    with y show ?thesis by (simp add: calcularTEA_condicion_def)
  qed
  have second: "isValid (validarDatosEntradaJS (enJS input))
            \<and> calcularTEA_condicion (Num (importe input)) (Num (cuotas input))
            \<and> 28 / 360 \<le> years \<and> 0 < importe input
            \<and> (\<exists>b. calcularFinanciamiento_B input = Inr b
                 \<and> (0 \<le> tnaCobrador_resultante input
                      \<longrightarrow> tea b = ((totalPayable / importe input) powr (1 / years) - 1) * 100))"
    if v: "isValid (validarDatosEntrada input)"
  proof -
    have y: "28 / 360 \<le> years" and ni: "\<not> Number_isInteger (1 / years)"
      unfolding years_def using valid_years[OF v] by blast+
    have a: "0 < importe input" using v by (simp add: isValid_iff)
    from y have y0: "0 < years" by simp
    have g: "calcularTEA_condicion (Num (importe input)) (Num (cuotas input))"
      using y0 a by (simp add: calcularTEA_condicion_def aniosJS_def js_gt_def years_def)
    from B_fields[OF v] obtain b where b: "calcularFinanciamiento_B input = Inr b"
      and t: "tea b = calcularTEA_B (importe input) (cuotas input) (tnaCobrador_resultante input)"
      by blast
    have "tea b = ((totalPayable / importe input) powr (1 / years) - 1) * 100"
      unfolding t calcularTEA_B_eq
      using y0 a ni by (simp add: Math_pow_def years_def totalPayable_def)
    with y a b g v show ?thesis by (auto simp: validarDatosEntradaJS_enJS)
  qed
  from first second show ?thesis by blast
qed

text \<open>
  C10 at 10000 over one instalment at 360 percent, and at an infinite amount over three
  instalments with the rate NaN.
\<close>

theorem C10_guard_always_holds_witness:
  "isValid (validarDatosEntrada (entrada 10000 1 360)) \<and>
   0 \<le> tnaCobrador_resultante (entrada 10000 1 360) \<and>
   map_sum id tea (calcularFinanciamiento_B (entrada 10000 1 360))
     = Inr (((39 / 32) powr (90 / 7) - 1) * 100) \<and>
   isValid (validarDatosEntradaJS
     ((enJS (entrada 10000 3 0))\<lparr>importeJS := Infinity, tnaJS := NaN\<rparr>)) \<and>
   calcularTEA_condicion Infinity (Num 3)"
proof -
  have v: "isValid (validarDatosEntrada (entrada 10000 1 360))"
    by (simp add: isValid_iff entrada_def)
  have r: "0 \<le> tnaCobrador_resultante (entrada 10000 1 360)"
    by (simp add: entrada_def tnaCobrador_resultante_def default0_def)
  have w: "isValid (validarDatosEntradaJS
     ((enJS (entrada 10000 3 0))\<lparr>importeJS := Infinity, tnaJS := NaN\<rparr>))"
    by (simp add: isValidJS_iff enJS_def entrada_def Number_isIntegerJS_def
        Number_isInteger_def)
  have s: "discount 360 (Suc 0) = 25 / 32"
    by (simp add: discount_def factor28_def)
  from C10_guard_always_holds
    [of "(enJS (entrada 10000 3 0))\<lparr>importeJS := Infinity, tnaJS := NaN\<rparr>"
        "entrada 10000 1 360"] v r w
  have "map_sum id tea (calcularFinanciamiento_B (entrada 10000 1 360))
     = Inr (((39 / 32) powr (90 / 7) - 1) * 100)"
    and "calcularTEA_condicion Infinity (Num 3)"
    by (auto simp: calcularCostoFinanciero_eq s entrada_def tnaCobrador_resultante_def
        default0_def enJS_def)
  with v r w show ?thesis by simp
qed

text \<open>
  C10 as stated fails for an amount that is NaN: \<open>NaN <= 0\<close> is false, so the input with one
  instalment at rate 0 passes validation; \<open>NaN > 0\<close> is false as well, so the condition of
  \<open>calcularTEA\<close> fails and the fallback is taken.
\<close>

theorem C10_nan_amount_counterexample:
  "isValid (validarDatosEntradaJS ((enJS (entrada 1000 1 0))\<lparr>importeJS := NaN\<rparr>)) \<and>
   \<not> calcularTEA_condicion
        (importeJS ((enJS (entrada 1000 1 0))\<lparr>importeJS := NaN\<rparr>))
        (cuotasJS ((enJS (entrada 1000 1 0))\<lparr>importeJS := NaN\<rparr>))"
  by (simp add: isValidJS_iff enJS_def entrada_def Number_isIntegerJS_def
      Number_isInteger_def calcularTEA_condicion_def js_gt_def)

end
